theory Spec2Isabelle
  imports Complex_Main "HOL-Library.Word" "HOL-Library.Signed_Division"
begin

unbundle bit_operations_syntax

section \<open>The atomix sound mixer (atomix.h)\<close>

text \<open>
  A shallow embedding of the single-header mixer. C's \<^verbatim>\<open>uint32_t\<close>, \<^verbatim>\<open>int32_t\<close> and
  \<^verbatim>\<open>uint8_t\<close> are words of that width: the unsigned comparisons of the source are \<open><\<close>
  on words, the signed ones are \<open><s\<close>, and arithmetic wraps around. A \<^verbatim>\<open>float\<close> is the 32
  bits of an IEEE 754 binary32 number, and every operation on floats rounds to the nearest
  one on its own: no two operations are fused, and no intermediate result is kept wider.
  Atomic loads, stores and compare-and-swaps are the sequential ones: a single thread runs
  each function to its end.
\<close>

type_synonym u8 = "8 word"
type_synonym u32 = "32 word"
type_synonym i32 = "32 word"
type_synonym f32 = "32 word"

subsection \<open>Constants\<close>

definition ATOMIX_STOP :: u8 where "ATOMIX_STOP = 1"
definition ATOMIX_HALT :: u8 where "ATOMIX_HALT = 2"
definition ATOMIX_PLAY :: u8 where "ATOMIX_PLAY = 3"
definition ATOMIX_LOOP :: u8 where "ATOMIX_LOOP = 4"

text \<open>
  \<^verbatim>\<open>ATOMIX_LBITS\<close> is a compile-time option (8 unless overridden); every function that
  depends on it takes it as its first argument \<open>lb\<close>.
\<close>

definition ATMX_LAYERS :: "nat \<Rightarrow> u32" where
  "ATMX_LAYERS lb = push_bit lb 1"

definition ATMX_LMASK :: "nat \<Rightarrow> u32" where
  "ATMX_LMASK lb = ATMX_LAYERS lb - 1"

subsection \<open>Floats\<close>

text \<open>
  The 32 bits of a float, read as a number: bit 31 is the sign, bits 23 to 30 the
  exponent field and bits 0 to 22 the fraction. A field of 255 is an infinity (fraction
  0) or a NaN. Every other float is the integer \<open>f_sig\<close> times \<open>2 ^ f_qe\<close>, negated when
  the sign is set: the fraction counts units of \<open>2 ^ -149\<close> when the field is 0, and has
  the bit 23 put before it and counts units of \<open>2 ^ (field - 150)\<close> otherwise.
\<close>

definition f_neg :: "f32 \<Rightarrow> bool" where
  "f_neg w = (2147483648 \<le> unat w)"

definition f_exp :: "f32 \<Rightarrow> nat" where
  "f_exp w = unat w div 8388608 mod 256"

definition f_man :: "f32 \<Rightarrow> nat" where
  "f_man w = unat w mod 8388608"

definition f_nan :: "f32 \<Rightarrow> bool" where
  "f_nan w = (f_exp w = 255 \<and> f_man w \<noteq> 0)"

definition f_inf :: "f32 \<Rightarrow> bool" where
  "f_inf w = (f_exp w = 255 \<and> f_man w = 0)"

definition f_sig :: "f32 \<Rightarrow> nat" where
  "f_sig w = (if f_exp w = 0 then f_man w else 8388608 + f_man w)"

definition f_qe :: "f32 \<Rightarrow> int" where
  "f_qe w = (if f_exp w = 0 then - 149 else int (f_exp w) - 150)"

definition f_sint :: "f32 \<Rightarrow> int" where
  "f_sint w = (if f_neg w then - int (f_sig w) else int (f_sig w))"

text \<open>
  The number a float stands for. An infinity is read like the others and comes out as
  \<open>2 ^ 128\<close> or \<open>- 2 ^ 128\<close>, beyond every finite float; a NaN stands for no number, and
  no use is made of its value.
\<close>

definition float_value :: "f32 \<Rightarrow> real" where
  "float_value w =
     (if f_qe w < 0 then real_of_int (f_sint w) / 2 ^ nat (- f_qe w)
      else real_of_int (f_sint w) * 2 ^ nat (f_qe w))"

text \<open>The float of a sign and the 31 bits below it; the zeros and the infinities.\<close>

definition f_enc :: "bool \<Rightarrow> nat \<Rightarrow> f32" where
  "f_enc s v = of_nat (if s then 2147483648 + v else v)"

definition f_zero :: "bool \<Rightarrow> f32" where
  "f_zero s = f_enc s 0"

definition f_infty :: "bool \<Rightarrow> f32" where
  "f_infty s = f_enc s 2139095040"

text \<open>The literals of the source and of the scenarios below.\<close>

abbreviation F_half :: f32 where "F_half \<equiv> 0x3F000000"
abbreviation F_1 :: f32 where "F_1 \<equiv> 0x3F800000"
abbreviation F_neg1 :: f32 where "F_neg1 \<equiv> 0xBF800000"
abbreviation F_2 :: f32 where "F_2 \<equiv> 0x40000000"
abbreviation F_4 :: f32 where "F_4 \<equiv> 0x40800000"
abbreviation F_neg4 :: f32 where "F_neg4 \<equiv> 0xC0800000"
abbreviation F_9 :: f32 where "F_9 \<equiv> 0x41100000"
abbreviation F_max :: f32 where "F_max \<equiv> 0x7F7FFFFF"
abbreviation F_eighth :: f32 where "F_eighth \<equiv> 0x3E000000"
abbreviation F_quarter :: f32 where "F_quarter \<equiv> 0x3E800000"
abbreviation F_3eighths :: f32 where "F_3eighths \<equiv> 0x3EC00000"
abbreviation F_3quarters :: f32 where "F_3quarters \<equiv> 0x3F400000"
abbreviation F_neg2 :: f32 where "F_neg2 \<equiv> 0xC0000000"
abbreviation F_inf :: f32 where "F_inf \<equiv> 0x7F800000"
abbreviation F_neg_inf :: f32 where "F_neg_inf \<equiv> 0xFF800000"
abbreviation F_nan :: f32 where "F_nan \<equiv> 0xFFC00000"

text \<open>
  Rounding to the nearest float, ties to the even one (the mode in which C programs run):
  the float nearest to \<open>m\<close> times \<open>2 ^ e\<close>, with the sign \<open>s\<close>. \<open>bit_len m\<close> is the number of
  bits of \<open>m\<close>. The result counts units of \<open>2 ^ q\<close>, where \<open>q\<close> leaves 24 bits to \<open>m\<close> but
  is not below \<open>-149\<close>; \<open>M\<close> is the count, \<open>m\<close> shifted to the unit \<open>2 ^ q\<close> and, where bits
  are lost, rounded by them. The exponent field \<open>q + 150\<close> of a count with bit 23 set, and
  the field 0 of a smaller one, are both \<open>q + 149\<close> added above the bits of \<open>M\<close>; a count
  that has become \<open>2 ^ 24\<close> carries into the field. A result beyond the greatest finite
  float is an infinity.
\<close>

fun bit_len :: "nat \<Rightarrow> nat" where
  "bit_len n = (if n = 0 then 0 else Suc (bit_len (n div 2)))"

definition f_round :: "bool \<Rightarrow> nat \<Rightarrow> int \<Rightarrow> f32" where
  "f_round s m e =
     (let q = max (e + int (bit_len m) - 24) (- 149);
          M = (if q \<le> e then m * 2 ^ nat (e - q)
               else (let d = nat (q - e); M0 = m div 2 ^ d; r = m mod 2 ^ d; h = 2 ^ (d - 1)
                     in if h < r \<or> (r = h \<and> odd M0) then M0 + 1 else M0));
          v = nat (q + 149) * 8388608 + M
      in if m = 0 then f_zero s
         else if 2139095040 \<le> v then f_infty s
         else f_enc s v)"

text \<open>
  The NaN that an operation returns, as SSE chooses it: the first operand that is a NaN,
  made quiet, and the default NaN where no operand is one. The statements below only ask
  whether a result is a NaN.
\<close>

definition f_quiet :: "f32 \<Rightarrow> f32 \<Rightarrow> f32" where
  "f_quiet a b = (if f_nan a then a OR 0x00400000 else if f_nan b then b OR 0x00400000 else 0xFFC00000)"

text \<open>
  \<^verbatim>\<open>a + b\<close>, \<^verbatim>\<open>a - b\<close>, \<^verbatim>\<open>a * b\<close> and \<^verbatim>\<open>a / b\<close> on floats, and with SSE \<^verbatim>\<open>_mm_add_ps\<close> and
  \<^verbatim>\<open>_mm_mul_ps\<close> on each of the four floats: the exact result, rounded. The sum of an
  infinity and its opposite, the product of an infinity and a zero, and the quotient of
  two infinities or two zeros are NaN. A sum that is exactly zero is \<open>-0\<close> only when both
  operands are negative.
\<close>

definition f_add :: "f32 \<Rightarrow> f32 \<Rightarrow> f32" where
  "f_add a b =
     (if f_nan a \<or> f_nan b then f_quiet a b
      else if f_inf a then (if f_inf b \<and> f_neg a \<noteq> f_neg b then f_quiet a b else a)
      else if f_inf b then b
      else (let e = min (f_qe a) (f_qe b);
                x = f_sint a * 2 ^ nat (f_qe a - e) + f_sint b * 2 ^ nat (f_qe b - e)
            in if x = 0 then f_zero (f_neg a \<and> f_neg b)
               else f_round (x < 0) (nat \<bar>x\<bar>) e))"

definition f_sub :: "f32 \<Rightarrow> f32 \<Rightarrow> f32" where
  "f_sub a b = (if f_nan a \<or> f_nan b then f_quiet a b else f_add a (b XOR 0x80000000))"

definition f_mul :: "f32 \<Rightarrow> f32 \<Rightarrow> f32" where
  "f_mul a b =
     (if f_nan a \<or> f_nan b then f_quiet a b
      else if f_inf a \<or> f_inf b then
        (if f_sig a = 0 \<or> f_sig b = 0 then f_quiet a b else f_infty (f_neg a \<noteq> f_neg b))
      else f_round (f_neg a \<noteq> f_neg b) (f_sig a * f_sig b) (f_qe a + f_qe b))"

text \<open>
  The quotient of two finite floats is rounded from \<open>2 ^ 64\<close> times the first significand,
  divided by the second, with a last bit that says whether the division left a remainder:
  more than 40 bits, so that the last one decides a tie and nothing else.
\<close>

definition f_div :: "f32 \<Rightarrow> f32 \<Rightarrow> f32" where
  "f_div a b =
     (if f_nan a \<or> f_nan b then f_quiet a b
      else if f_inf a then (if f_inf b then f_quiet a b else f_infty (f_neg a \<noteq> f_neg b))
      else if f_inf b then f_zero (f_neg a \<noteq> f_neg b)
      else if f_sig b = 0 then
        (if f_sig a = 0 then f_quiet a b else f_infty (f_neg a \<noteq> f_neg b))
      else (let n = f_sig a * 2 ^ 64; k = n div f_sig b
            in f_round (f_neg a \<noteq> f_neg b) (2 * k + (if n mod f_sig b = 0 then 0 else 1))
                 (f_qe a - f_qe b - 65)))"

text \<open>\<^verbatim>\<open>(float)i\<close> for an \<^verbatim>\<open>int32_t\<close>.\<close>

definition f_of_int :: "i32 \<Rightarrow> f32" where
  "f_of_int i = f_round (i <s 0) (nat \<bar>sint i\<bar>) 0"

text \<open>\<^verbatim>\<open>a < b\<close> and \<^verbatim>\<open>a > b\<close> on floats: false when an operand is a NaN.\<close>

definition f_lt :: "f32 \<Rightarrow> f32 \<Rightarrow> bool" where
  "f_lt a b = (\<not> f_nan a \<and> \<not> f_nan b \<and> float_value a < float_value b)"

definition f_gt :: "f32 \<Rightarrow> f32 \<Rightarrow> bool" where
  "f_gt a b = f_lt b a"

text \<open>
  \<^verbatim>\<open>_mm_max_ps(a, b)\<close> and \<^verbatim>\<open>_mm_min_ps(a, b)\<close> on one float: \<open>a\<close> when it is the greater
  (the smaller), and \<open>b\<close> in every other case, also when an operand is a NaN.
\<close>

definition f_max_ps :: "f32 \<Rightarrow> f32 \<Rightarrow> f32" where
  "f_max_ps a b = (if f_gt a b then a else b)"

definition f_min_ps :: "f32 \<Rightarrow> f32 \<Rightarrow> f32" where
  "f_min_ps a b = (if f_lt a b then a else b)"

subsection \<open>Structs\<close>

text \<open>
  The fields keep the names of the source behind a prefix, since \<open>id\<close>, \<open>snd\<close>, \<open>end\<close>
  and the like are taken in HOL. A pointer to a sound is \<open>None\<close> when it is \<^verbatim>\<open>NULL\<close>
  (as the zero-filling allocator leaves it) and the sound itself otherwise: sounds are
  immutable once made. The array of layers is a function of the index; the source only
  ever indexes it below \<^verbatim>\<open>ATMX_LAYERS\<close>. The fields \<open>rem\<close> and \<open>data\<close> exist in the SSE
  build only.
\<close>

record atomix_sound =
  snd_cha :: u8
  snd_len :: i32
  snd_data :: "f32 list"

record atmx_f2 =
  f2_l :: f32
  f2_r :: f32

record atmx_layer =
  lay_id :: u32
  lay_flag :: u8
  lay_cursor :: i32
  lay_gain :: atmx_f2
  lay_snd :: "atomix_sound option"
  lay_start :: i32
  lay_end :: i32
  lay_fade :: i32
  lay_fmax :: i32

record atomix_mixer =
  mix_nid :: u32
  mix_volume :: f32
  mix_lays :: "nat \<Rightarrow> atmx_layer"
  mix_fade :: i32
  mix_rem :: u32
  mix_data :: "f32 list"

subsection \<open>Gain and pan\<close>

definition atmxGainf2 :: "f32 \<Rightarrow> f32 \<Rightarrow> atmx_f2" where
  "atmxGainf2 gain pan0 =
     (let pan = (if f_lt pan0 F_neg1 then F_neg1 else if f_gt pan0 F_1 then F_1 else pan0)
      in \<lparr>f2_l = f_mul gain (f_sub F_half (f_div pan F_2)),
          f2_r = f_mul gain (f_add F_half (f_div pan F_2))\<rparr>)"

subsection \<open>The mixer constructor and the global controls\<close>

definition zero_layer :: atmx_layer where
  "zero_layer = \<lparr>lay_id = 0, lay_flag = 0, lay_cursor = 0,
     lay_gain = \<lparr>f2_l = 0, f2_r = 0\<rparr>, lay_snd = None,
     lay_start = 0, lay_end = 0, lay_fade = 0, lay_fmax = 0\<rparr>"

definition atomixMixerNew :: "f32 \<Rightarrow> i32 \<Rightarrow> atomix_mixer" where
  "atomixMixerNew vol fade =
     \<lparr>mix_nid = 0, mix_volume = vol, mix_lays = (\<lambda>_. zero_layer),
      mix_fade = (if fade <s 0 then 0 else fade AND NOT 3),
      mix_rem = 0, mix_data = [0, 0, 0, 0, 0, 0]\<rparr>"

definition atomixMixerVolume :: "atomix_mixer \<Rightarrow> f32 \<Rightarrow> atomix_mixer" where
  "atomixMixerVolume mix vol = mix\<lparr>mix_volume := vol\<rparr>"

definition atomixMixerFade :: "atomix_mixer \<Rightarrow> i32 \<Rightarrow> atomix_mixer" where
  "atomixMixerFade mix fade = mix\<lparr>mix_fade := (if fade <s 0 then 0 else fade AND NOT 3)\<rparr>"

subsection \<open>Layer allocation\<close>

text \<open>
  The probing loop of \<^verbatim>\<open>atomixMixerPlayAdv\<close>; the first argument after \<open>lb\<close> counts the
  attempts that are left. The result is the returned handle and the mixer as the call
  leaves it.
\<close>

fun play_probe :: "nat \<Rightarrow> nat \<Rightarrow> atomix_mixer \<Rightarrow> atomix_sound \<Rightarrow> u8 \<Rightarrow> f32 \<Rightarrow> f32
    \<Rightarrow> i32 \<Rightarrow> i32 \<Rightarrow> i32 \<Rightarrow> u32 \<times> atomix_mixer" where
  "play_probe lb 0 mix sd flag gain pan start end' fade = (0, mix)"
| "play_probe lb (Suc n) mix sd flag gain pan start end' fade =
     (let id0 = mix_nid mix;
          mix1 = mix\<lparr>mix_nid := mix_nid mix + 1\<rparr>;
          slot = unat (id0 AND ATMX_LMASK lb);
          lay = mix_lays mix1 slot
      in if lay_flag lay = 0 then
           (let id1 = (if id0 = 0 then ATMX_LAYERS lb else id0);
                lay1 = lay\<lparr>lay_id := id1, lay_snd := Some sd\<rparr>;
                lay2 = lay1\<lparr>lay_start := start AND NOT 3, lay_end := end' AND NOT 3\<rparr>;
                lay3 = lay2\<lparr>lay_fmax := (if fade <s 0 then 0 else fade AND NOT 3)\<rparr>;
                lay4 = lay3\<lparr>lay_fade := (if flag < 3 then 0 else lay_fmax lay3)\<rparr>;
                lay5 = lay4\<lparr>lay_gain := atmxGainf2 gain pan\<rparr>;
                lay6 = lay5\<lparr>lay_cursor := lay_start lay5\<rparr>;
                lay7 = lay6\<lparr>lay_flag := flag\<rparr>
            in (id1, mix1\<lparr>mix_lays := (mix_lays mix1)(slot := lay7)\<rparr>))
         else play_probe lb n mix1 sd flag gain pan start end' fade)"

definition atomixMixerPlayAdv :: "nat \<Rightarrow> atomix_mixer \<Rightarrow> atomix_sound \<Rightarrow> u8 \<Rightarrow> f32 \<Rightarrow> f32
    \<Rightarrow> i32 \<Rightarrow> i32 \<Rightarrow> i32 \<Rightarrow> u32 \<times> atomix_mixer" where
  "atomixMixerPlayAdv lb mix sd flag gain pan start end' fade =
     (if flag < 1 \<or> flag > 4 then (0, mix)
      else if (end' - start) <s 4 \<or> end' <s 4 then (0, mix)
      else play_probe lb (unat (ATMX_LAYERS lb)) mix sd flag gain pan start end' fade)"

definition atomixMixerPlay :: "nat \<Rightarrow> atomix_mixer \<Rightarrow> atomix_sound \<Rightarrow> u8 \<Rightarrow> f32 \<Rightarrow> f32
    \<Rightarrow> u32 \<times> atomix_mixer" where
  "atomixMixerPlay lb mix sd flag gain pan =
     atomixMixerPlayAdv lb mix sd flag gain pan 0 (snd_len sd) (mix_fade mix)"

subsection \<open>Handle-addressed controls\<close>

text \<open>
  Each returns the \<^verbatim>\<open>int\<close> of the source (1 where the source comments "return success",
  0 where it comments "return failure") and the mixer as the call leaves it.
\<close>

definition atomixMixerSetGainPan :: "nat \<Rightarrow> atomix_mixer \<Rightarrow> u32 \<Rightarrow> f32 \<Rightarrow> f32
    \<Rightarrow> int \<times> atomix_mixer" where
  "atomixMixerSetGainPan lb mix id0 gain pan =
     (let slot = unat (id0 AND ATMX_LMASK lb); lay = mix_lays mix slot
      in if id0 = lay_id lay \<and> lay_flag lay > 1 then
           (1, mix\<lparr>mix_lays := (mix_lays mix)(slot := lay\<lparr>lay_gain := atmxGainf2 gain pan\<rparr>)\<rparr>)
         else (0, mix))"

definition atomixMixerSetCursor :: "nat \<Rightarrow> atomix_mixer \<Rightarrow> u32 \<Rightarrow> i32 \<Rightarrow> int \<times> atomix_mixer" where
  "atomixMixerSetCursor lb mix id0 cursor =
     (let slot = unat (id0 AND ATMX_LMASK lb); lay = mix_lays mix slot
      in if id0 = lay_id lay \<and> lay_flag lay > 1 then
           (1, mix\<lparr>mix_lays := (mix_lays mix)(slot := lay\<lparr>lay_cursor :=
              (if cursor <s lay_start lay then lay_start lay
               else if lay_end lay <s cursor then lay_end lay
               else cursor AND NOT 3)\<rparr>)\<rparr>)
         else (0, mix))"

text \<open>
  The strong compare-and-swap on a flag: the stored value, and whether it was swapped.
\<close>

definition cswap_flag :: "u8 \<Rightarrow> u8 \<Rightarrow> u8 \<Rightarrow> u8 \<times> bool" where
  "cswap_flag cur expected desired = (if cur = expected then (desired, True) else (cur, False))"

definition atomixMixerSetState :: "nat \<Rightarrow> atomix_mixer \<Rightarrow> u32 \<Rightarrow> u8 \<Rightarrow> int \<times> atomix_mixer" where
  "atomixMixerSetState lb mix id0 flag =
     (if flag < 1 \<or> flag > 4 then (0, mix)
      else
        (let slot = unat (id0 AND ATMX_LMASK lb); lay = mix_lays mix slot;
             prev = lay_flag lay
         in if id0 = lay_id lay \<and> prev > 1 then
              (if prev = flag then (1, mix)
               else (case cswap_flag (lay_flag lay) prev flag of
                       (v, ok) \<Rightarrow>
                         (let mix1 = mix\<lparr>mix_lays := (mix_lays mix)(slot := lay\<lparr>lay_flag := v\<rparr>)\<rparr>
                          in if ok then (1, mix1) else (0, mix1))))
            else (0, mix)))"

text \<open>The loop of \<^verbatim>\<open>atomixMixerStopAll\<close> over the layers \<open>i, i + 1, ...\<close>, \<open>n\<close> of them.\<close>

fun stop_all_loop :: "nat \<Rightarrow> nat \<Rightarrow> (nat \<Rightarrow> atmx_layer) \<Rightarrow> (nat \<Rightarrow> atmx_layer)" where
  "stop_all_loop 0 i lays = lays"
| "stop_all_loop (Suc n) i lays =
     stop_all_loop n (Suc i)
       (if lay_flag (lays i) > 1 then lays(i := (lays i)\<lparr>lay_flag := ATOMIX_STOP\<rparr>) else lays)"

definition atomixMixerStopAll :: "nat \<Rightarrow> atomix_mixer \<Rightarrow> atomix_mixer" where
  "atomixMixerStopAll lb mix =
     mix\<lparr>mix_lays := stop_all_loop (unat (ATMX_LAYERS lb)) 0 (mix_lays mix)\<rparr>"

subsection \<open>Reading a sound\<close>

text \<open>
  \<^verbatim>\<open>cur % lay->snd->len\<close> is C's remainder, which truncates: \<open>smod\<close> on the integers the
  two operands stand for. The kernels evaluate it for \<open>cur \<ge> 0\<close> only. Reading
  \<open>snd_data\<close> outside the list, or the sound of a layer whose pointer is \<^verbatim>\<open>NULL\<close>, gives
  an unspecified value here (in C the behaviour is undefined); no result below depends
  on such a value. A frame is the pair of samples that a kernel scales by the left and by
  the right gain: twice the one sample of a mono sound, the two samples of a stereo one.
\<close>

definition cur_mod_len :: "atomix_sound \<Rightarrow> i32 \<Rightarrow> nat" where
  "cur_mod_len sd cur = nat (sint cur smod sint (snd_len sd))"

text \<open>Scalar build: \<^verbatim>\<open>data[cur % len]\<close>, and \<^verbatim>\<open>data[off], data[off+1]\<close> at \<^verbatim>\<open>off = (cur % len) << 1\<close>.\<close>

definition mono_frame :: "atomix_sound \<Rightarrow> i32 \<Rightarrow> f32 \<times> f32" where
  "mono_frame sd cur = (let sam = snd_data sd ! cur_mod_len sd cur in (sam, sam))"

definition stereo_frame :: "atomix_sound \<Rightarrow> i32 \<Rightarrow> f32 \<times> f32" where
  "stereo_frame sd cur =
     (let off = 2 * cur_mod_len sd cur in (snd_data sd ! off, snd_data sd ! (off + 1)))"

text \<open>
  SSE build: the \<^verbatim>\<open>__m128\<close> at \<^verbatim>\<open>data[(cur % len) >> 2]\<close> holds four mono samples, which
  \<^verbatim>\<open>_mm_unpacklo_ps\<close> and \<^verbatim>\<open>_mm_unpackhi_ps\<close> double into four frames; the two
  \<^verbatim>\<open>__m128\<close> at \<^verbatim>\<open>data[off], data[off+1]\<close>, \<^verbatim>\<open>off = (cur % len) >> 1\<close>, hold four stereo
  frames.
\<close>

definition mono_block :: "atomix_sound \<Rightarrow> i32 \<Rightarrow> (f32 \<times> f32) list" where
  "mono_block sd cur =
     (let k = cur_mod_len sd cur div 4
      in map (\<lambda>j. (snd_data sd ! (4 * k + j), snd_data sd ! (4 * k + j))) [0, 1, 2, 3])"

definition stereo_block :: "atomix_sound \<Rightarrow> i32 \<Rightarrow> (f32 \<times> f32) list" where
  "stereo_block sd cur =
     (let off = cur_mod_len sd cur div 2
      in map (\<lambda>j. (snd_data sd ! (4 * off + 2 * j), snd_data sd ! (4 * off + 2 * j + 1)))
           [0, 1, 2, 3])"

subsection \<open>Writing to a buffer of floats\<close>

text \<open>\<^verbatim>\<open>buff[i] += x; buff[i+1] += y\<close>.\<close>

definition add_frame :: "f32 list \<Rightarrow> nat \<Rightarrow> f32 \<Rightarrow> f32 \<Rightarrow> f32 list" where
  "add_frame buff i x y =
     (let b1 = buff[i := f_add (buff ! i) x] in b1[i + 1 := f_add (b1 ! (i + 1)) y])"

text \<open>
  \<^verbatim>\<open>align[i] = _mm_add_ps(align[i], _mm_mul_ps(lo, mul))\<close> and the same for
  \<^verbatim>\<open>align[i+1]\<close> and \<^verbatim>\<open>hi\<close>, on \<^verbatim>\<open>__m128\<close> values: the floats
  \<open>4 i, ..., 4 i + 7\<close> of the buffer receive four frames, each scaled by the left and right
  multiplier.
\<close>

definition add_block :: "f32 list \<Rightarrow> nat \<Rightarrow> (f32 \<times> f32) list \<Rightarrow> f32 \<Rightarrow> f32 \<Rightarrow> f32 list" where
  "add_block align i frs ml mr =
     (let a0 = add_frame align (4 * i) (f_mul (fst (frs ! 0)) ml) (f_mul (snd (frs ! 0)) mr);
          a1 = add_frame a0 (4 * i + 2) (f_mul (fst (frs ! 1)) ml) (f_mul (snd (frs ! 1)) mr);
          a2 = add_frame a1 (4 * i + 4) (f_mul (fst (frs ! 2)) ml) (f_mul (snd (frs ! 2)) mr)
      in add_frame a2 (4 * i + 6) (f_mul (fst (frs ! 3)) ml) (f_mul (snd (frs ! 3)) mr))"

text \<open>\<^verbatim>\<open>memcpy(dst + off, src, n * sizeof(float))\<close> for whole floats.\<close>

definition write_floats :: "f32 list \<Rightarrow> nat \<Rightarrow> f32 list \<Rightarrow> f32 list" where
  "write_floats dst off xs = take off dst @ xs @ drop (off + length xs) dst"

text \<open>
  The first \<open>n\<close> bytes of a float in memory are the low \<open>8 n\<close> bits of its 32 (the
  processors that have SSE are little-endian): the bits of \<open>old\<close> with their first \<open>n\<close>
  bytes overwritten by those of \<open>new\<close>.
\<close>

definition patch_bytes :: "nat \<Rightarrow> f32 \<Rightarrow> f32 \<Rightarrow> f32" where
  "patch_bytes n old new = (old AND NOT (mask (8 * n))) OR (new AND mask (8 * n))"

text \<open>
  \<^verbatim>\<open>memcpy(dst, src, k)\<close> for a count \<open>k\<close> of bytes and four bytes to a float: \<open>k div 4\<close>
  whole floats, and the first \<open>k mod 4\<close> bytes of the next.
\<close>

definition memcpy_bytes :: "f32 list \<Rightarrow> f32 list \<Rightarrow> nat \<Rightarrow> f32 list" where
  "memcpy_bytes dst src k =
     (let nf = k div 4; pb = k mod 4;
          d1 = write_floats dst 0 (take nf src)
      in if pb = 0 then d1 else d1[nf := patch_bytes pb (d1 ! nf) (src ! nf)])"

text \<open>\<^verbatim>\<open>(b < -1.0f) ? -1.0f : (b > 1.0f) ? 1.0f : b\<close>, the clipping without SSE.\<close>

definition clamp1 :: "f32 \<Rightarrow> f32" where
  "clamp1 x = (if f_lt x F_neg1 then F_neg1 else if f_gt x F_1 then F_1 else x)"

subsection \<open>The compare-and-swap on the cursor\<close>

definition cswap_cursor :: "i32 \<Rightarrow> i32 \<Rightarrow> i32 \<Rightarrow> i32 \<times> bool" where
  "cswap_cursor cur expected desired = (if cur = expected then (desired, True) else (cur, False))"

text \<open>
  The end of every kernel: \<^verbatim>\<open>if (!ATMX_CSWAP(&lay->cursor, &old, cur)) cur = old; return cur;\<close>
  where a failed swap leaves the observed cursor in \<^verbatim>\<open>old\<close>.
\<close>

definition swap_back :: "atmx_layer \<Rightarrow> i32 \<Rightarrow> i32 \<Rightarrow> atmx_layer \<times> i32" where
  "swap_back lay old cur =
     (case cswap_cursor (lay_cursor lay) old cur of
        (v, ok) \<Rightarrow> (lay\<lparr>lay_cursor := v\<rparr>, if ok then cur else v))"

subsection \<open>The kernel loops\<close>

text \<open>
  Every kernel holds two \<^verbatim>\<open>for\<close> loops, and the eight kernels of the two builds run the
  same four loops: a fade-out and a play-out in \<^verbatim>\<open>atmxMixFadeMono\<close> and
  \<^verbatim>\<open>atmxMixFadeStereo\<close>, a fade-in and a plain playback in \<^verbatim>\<open>atmxMixPlayMono\<close> and
  \<^verbatim>\<open>atmxMixPlayStereo\<close>. They differ in the statements that mix a frame (or, with SSE, a
  block of four frames) into the buffer, here the function \<open>acc\<close>, and in the step \<open>st\<close>
  by which cursor and fade advance: 1 without SSE, 4 with it. The index runs
  \<^verbatim>\<open>for (uint32_t i = 0; i < b; i += 2)\<close>, where \<open>b\<close> is \<^verbatim>\<open>fnum*2\<close> (a 32-bit product)
  without SSE and \<^verbatim>\<open>asize\<close> with it; both are even, so \<^verbatim>\<open>i += 2\<close> does not wrap below
  \<open>b\<close> and the index is a natural number. The first argument of \<open>acc\<close> in the
  fading loops is \<^verbatim>\<open>(float)lay->fade/(float)lay->fmax\<close>.
\<close>

function fade_out_loop :: "(f32 \<Rightarrow> i32 \<Rightarrow> nat \<Rightarrow> f32 list \<Rightarrow> f32 list) \<Rightarrow> i32 \<Rightarrow> i32
    \<Rightarrow> nat \<Rightarrow> nat \<Rightarrow> i32 \<Rightarrow> i32 \<Rightarrow> f32 list \<Rightarrow> i32 \<times> i32 \<times> f32 list" where
  "fade_out_loop acc st fmax b i fade cur buff =
     (if i < b then
        (if fade = 0 then (fade, cur, buff)
         else fade_out_loop acc st fmax b (i + 2) (fade - st) (cur + st)
           (if 0 \<le>s cur
            then acc (f_div (f_of_int fade) (f_of_int fmax)) cur i buff
            else buff))
      else (fade, cur, buff))"
  by pat_completeness auto
termination
  by (relation "measure (\<lambda>(acc, st, fmax, b, i, fade, cur, buff). b - i)") auto

function play_out_loop :: "(i32 \<Rightarrow> nat \<Rightarrow> f32 list \<Rightarrow> f32 list) \<Rightarrow> i32 \<Rightarrow> i32
    \<Rightarrow> nat \<Rightarrow> nat \<Rightarrow> i32 \<Rightarrow> f32 list \<Rightarrow> i32 \<times> f32 list" where
  "play_out_loop acc st end' b i cur buff =
     (if i < b then
        (if cur = end' then (cur, buff)
         else play_out_loop acc st end' b (i + 2) (cur + st)
           (if 0 \<le>s cur then acc cur i buff else buff))
      else (cur, buff))"
  by pat_completeness auto
termination
  by (relation "measure (\<lambda>(acc, st, end', b, i, cur, buff). b - i)") auto

function fade_in_loop :: "(f32 \<Rightarrow> i32 \<Rightarrow> nat \<Rightarrow> f32 list \<Rightarrow> f32 list) \<Rightarrow> i32 \<Rightarrow> bool
    \<Rightarrow> i32 \<Rightarrow> i32 \<Rightarrow> i32 \<Rightarrow> nat \<Rightarrow> nat \<Rightarrow> i32 \<Rightarrow> i32 \<Rightarrow> f32 list
    \<Rightarrow> i32 \<times> i32 \<times> f32 list" where
  "fade_in_loop acc st loop start end' fmax b i fade cur0 buff =
     (if i < b then
        (if cur0 = end' \<and> \<not> loop then (fade, cur0, buff)
         else
           (let cur = (if cur0 = end' then start else cur0)
            in fade_in_loop acc st loop start end' fmax b (i + 2)
                 (if fade <s fmax then fade + st else fade) (cur + st)
                 (if 0 \<le>s cur
                  then acc (f_div (f_of_int fade) (f_of_int fmax)) cur i buff
                  else buff)))
      else (fade, cur0, buff))"
  by pat_completeness auto
termination
  by (relation "measure (\<lambda>(acc, st, loop, start, end', fmax, b, i, fade, cur0, buff). b - i)") auto

function play_loop :: "(i32 \<Rightarrow> nat \<Rightarrow> f32 list \<Rightarrow> f32 list) \<Rightarrow> i32 \<Rightarrow> bool
    \<Rightarrow> i32 \<Rightarrow> i32 \<Rightarrow> nat \<Rightarrow> nat \<Rightarrow> i32 \<Rightarrow> f32 list \<Rightarrow> i32 \<times> f32 list" where
  "play_loop acc st loop start end' b i cur0 buff =
     (if i < b then
        (if cur0 = end' \<and> \<not> loop then (cur0, buff)
         else
           (let cur = (if cur0 = end' then start else cur0)
            in play_loop acc st loop start end' b (i + 2) (cur + st)
                 (if 0 \<le>s cur then acc cur i buff else buff)))
      else (cur0, buff))"
  by pat_completeness auto
termination
  by (relation "measure (\<lambda>(acc, st, loop, start, end', b, i, cur0, buff). b - i)") auto

text \<open>
  A fade kernel (\<^verbatim>\<open>atmxMixFadeMono\<close>, \<^verbatim>\<open>atmxMixFadeStereo\<close>) and a play kernel
  (\<^verbatim>\<open>atmxMixPlayMono\<close>, \<^verbatim>\<open>atmxMixPlayStereo\<close>) around their loops: \<open>accf\<close> mixes with
  the fade multiplier, \<open>acc\<close> without it.
\<close>

definition fade_kernel :: "(f32 \<Rightarrow> i32 \<Rightarrow> nat \<Rightarrow> f32 list \<Rightarrow> f32 list)
    \<Rightarrow> (i32 \<Rightarrow> nat \<Rightarrow> f32 list \<Rightarrow> f32 list) \<Rightarrow> i32 \<Rightarrow> atmx_layer \<Rightarrow> i32 \<Rightarrow> f32 list \<Rightarrow> nat
    \<Rightarrow> atmx_layer \<times> i32 \<times> f32 list" where
  "fade_kernel accf acc st lay cur buff b =
     (let old = cur in
      if lay_fade lay <s lay_end lay - cur then
        (case fade_out_loop accf st (lay_fmax lay) b 0 (lay_fade lay) cur buff of
           (fade1, cur1, buff1) \<Rightarrow>
             (case swap_back (lay\<lparr>lay_fade := fade1\<rparr>) old cur1 of
                (lay1, cur2) \<Rightarrow> (lay1, cur2, buff1)))
      else
        (case play_out_loop acc st (lay_end lay) b 0 cur buff of
           (cur1, buff1) \<Rightarrow>
             (case swap_back lay old cur1 of (lay1, cur2) \<Rightarrow> (lay1, cur2, buff1))))"

definition play_kernel :: "(f32 \<Rightarrow> i32 \<Rightarrow> nat \<Rightarrow> f32 list \<Rightarrow> f32 list)
    \<Rightarrow> (i32 \<Rightarrow> nat \<Rightarrow> f32 list \<Rightarrow> f32 list) \<Rightarrow> i32 \<Rightarrow> atmx_layer \<Rightarrow> bool \<Rightarrow> i32
    \<Rightarrow> f32 list \<Rightarrow> nat \<Rightarrow> atmx_layer \<times> i32 \<times> f32 list" where
  "play_kernel accf acc st lay loop cur buff b =
     (let old = cur in
      if lay_fade lay <s lay_fmax lay then
        (case fade_in_loop accf st loop (lay_start lay) (lay_end lay) (lay_fmax lay) b 0
                (lay_fade lay) cur buff of
           (fade1, cur1, buff1) \<Rightarrow>
             (case swap_back (lay\<lparr>lay_fade := fade1\<rparr>) old cur1 of
                (lay1, cur2) \<Rightarrow> (lay1, cur2, buff1)))
      else
        (case play_loop acc st loop (lay_start lay) (lay_end lay) b 0 cur buff of
           (cur1, buff1) \<Rightarrow>
             (case swap_back lay old cur1 of (lay1, cur2) \<Rightarrow> (lay1, cur2, buff1))))"

subsection \<open>The kernels without SSE\<close>

text \<open>\<^verbatim>\<open>buff[i] += sam*fade*g.l; buff[i+1] += sam*fade*g.r;\<close> and the same without \<^verbatim>\<open>fade\<close>.\<close>

definition accf_nosse :: "(i32 \<Rightarrow> f32 \<times> f32) \<Rightarrow> atmx_f2 \<Rightarrow> f32 \<Rightarrow> i32 \<Rightarrow> nat \<Rightarrow> f32 list
    \<Rightarrow> f32 list" where
  "accf_nosse rd g fd cur i buff =
     add_frame buff i (f_mul (f_mul (fst (rd cur)) fd) (f2_l g))
       (f_mul (f_mul (snd (rd cur)) fd) (f2_r g))"

definition acc_nosse :: "(i32 \<Rightarrow> f32 \<times> f32) \<Rightarrow> atmx_f2 \<Rightarrow> i32 \<Rightarrow> nat \<Rightarrow> f32 list
    \<Rightarrow> f32 list" where
  "acc_nosse rd g cur i buff =
     add_frame buff i (f_mul (fst (rd cur)) (f2_l g)) (f_mul (snd (rd cur)) (f2_r g))"

definition atmxMixFadeMono_nosse :: "atmx_layer \<Rightarrow> i32 \<Rightarrow> atmx_f2 \<Rightarrow> f32 list \<Rightarrow> u32
    \<Rightarrow> atmx_layer \<times> i32 \<times> f32 list" where
  "atmxMixFadeMono_nosse lay cur g buff fnum =
     fade_kernel (accf_nosse (mono_frame (the (lay_snd lay))) g)
       (acc_nosse (mono_frame (the (lay_snd lay))) g) 1 lay cur buff (unat (fnum * 2))"

definition atmxMixFadeStereo_nosse :: "atmx_layer \<Rightarrow> i32 \<Rightarrow> atmx_f2 \<Rightarrow> f32 list \<Rightarrow> u32
    \<Rightarrow> atmx_layer \<times> i32 \<times> f32 list" where
  "atmxMixFadeStereo_nosse lay cur g buff fnum =
     fade_kernel (accf_nosse (stereo_frame (the (lay_snd lay))) g)
       (acc_nosse (stereo_frame (the (lay_snd lay))) g) 1 lay cur buff (unat (fnum * 2))"

definition atmxMixPlayMono_nosse :: "atmx_layer \<Rightarrow> bool \<Rightarrow> i32 \<Rightarrow> atmx_f2 \<Rightarrow> f32 list \<Rightarrow> u32
    \<Rightarrow> atmx_layer \<times> i32 \<times> f32 list" where
  "atmxMixPlayMono_nosse lay loop cur g buff fnum =
     play_kernel (accf_nosse (mono_frame (the (lay_snd lay))) g)
       (acc_nosse (mono_frame (the (lay_snd lay))) g) 1 lay loop cur buff (unat (fnum * 2))"

definition atmxMixPlayStereo_nosse :: "atmx_layer \<Rightarrow> bool \<Rightarrow> i32 \<Rightarrow> atmx_f2 \<Rightarrow> f32 list \<Rightarrow> u32
    \<Rightarrow> atmx_layer \<times> i32 \<times> f32 list" where
  "atmxMixPlayStereo_nosse lay loop cur g buff fnum =
     play_kernel (accf_nosse (stereo_frame (the (lay_snd lay))) g)
       (acc_nosse (stereo_frame (the (lay_snd lay))) g) 1 lay loop cur buff (unat (fnum * 2))"

subsection \<open>The kernels with SSE\<close>

text \<open>
  \<open>gmul\<close> is the \<^verbatim>\<open>__m128\<close> \<open>(l, r, l, r)\<close> of the left and right gain times the volume,
  kept as the pair \<open>(l, r)\<close>; \<^verbatim>\<open>fmul\<close> is \<^verbatim>\<open>_mm_mul_ps(_mm_set_ps1(fade/fmax), gmul)\<close>.
\<close>

definition accf_sse :: "(i32 \<Rightarrow> (f32 \<times> f32) list) \<Rightarrow> atmx_f2 \<Rightarrow> f32 \<Rightarrow> i32 \<Rightarrow> nat
    \<Rightarrow> f32 list \<Rightarrow> f32 list" where
  "accf_sse rd gmul fd cur i align =
     add_block align i (rd cur) (f_mul fd (f2_l gmul)) (f_mul fd (f2_r gmul))"

definition acc_sse :: "(i32 \<Rightarrow> (f32 \<times> f32) list) \<Rightarrow> atmx_f2 \<Rightarrow> i32 \<Rightarrow> nat
    \<Rightarrow> f32 list \<Rightarrow> f32 list" where
  "acc_sse rd gmul cur i align = add_block align i (rd cur) (f2_l gmul) (f2_r gmul)"

definition atmxMixFadeMono_sse :: "atmx_layer \<Rightarrow> i32 \<Rightarrow> atmx_f2 \<Rightarrow> f32 list \<Rightarrow> u32
    \<Rightarrow> atmx_layer \<times> i32 \<times> f32 list" where
  "atmxMixFadeMono_sse lay cur gmul align asize =
     fade_kernel (accf_sse (mono_block (the (lay_snd lay))) gmul)
       (acc_sse (mono_block (the (lay_snd lay))) gmul) 4 lay cur align (unat asize)"

definition atmxMixFadeStereo_sse :: "atmx_layer \<Rightarrow> i32 \<Rightarrow> atmx_f2 \<Rightarrow> f32 list \<Rightarrow> u32
    \<Rightarrow> atmx_layer \<times> i32 \<times> f32 list" where
  "atmxMixFadeStereo_sse lay cur gmul align asize =
     fade_kernel (accf_sse (stereo_block (the (lay_snd lay))) gmul)
       (acc_sse (stereo_block (the (lay_snd lay))) gmul) 4 lay cur align (unat asize)"

definition atmxMixPlayMono_sse :: "atmx_layer \<Rightarrow> bool \<Rightarrow> i32 \<Rightarrow> atmx_f2 \<Rightarrow> f32 list \<Rightarrow> u32
    \<Rightarrow> atmx_layer \<times> i32 \<times> f32 list" where
  "atmxMixPlayMono_sse lay loop cur gmul align asize =
     play_kernel (accf_sse (mono_block (the (lay_snd lay))) gmul)
       (acc_sse (mono_block (the (lay_snd lay))) gmul) 4 lay loop cur align (unat asize)"

definition atmxMixPlayStereo_sse :: "atmx_layer \<Rightarrow> bool \<Rightarrow> i32 \<Rightarrow> atmx_f2 \<Rightarrow> f32 list \<Rightarrow> u32
    \<Rightarrow> atmx_layer \<times> i32 \<times> f32 list" where
  "atmxMixPlayStereo_sse lay loop cur gmul align asize =
     play_kernel (accf_sse (stereo_block (the (lay_snd lay))) gmul)
       (acc_sse (stereo_block (the (lay_snd lay))) gmul) 4 lay loop cur align (unat asize)"

subsection \<open>Mixing one layer\<close>

text \<open>
  \<^verbatim>\<open>atmxMixLayer\<close> has the same statements in both builds and calls the kernels of its
  build. What it does after a kernel has returned:
\<close>

definition clear_stopped :: "u8 \<Rightarrow> atmx_layer \<Rightarrow> i32 \<Rightarrow> atmx_layer" where
  "clear_stopped flag lay cur =
     (if flag = ATOMIX_STOP \<and> (lay_fade lay = 0 \<or> cur = lay_end lay)
      then lay\<lparr>lay_flag := 0\<rparr> else lay)"

definition clear_played :: "u8 \<Rightarrow> atmx_layer \<Rightarrow> i32 \<Rightarrow> atmx_layer" where
  "clear_played flag lay cur =
     (if flag = ATOMIX_PLAY \<and> cur = lay_end lay
      then lay\<lparr>lay_flag := fst (cswap_flag (lay_flag lay) flag 0)\<rparr> else lay)"

definition atmxMixLayer_nosse :: "atmx_layer \<Rightarrow> f32 \<Rightarrow> f32 list \<Rightarrow> u32
    \<Rightarrow> atmx_layer \<times> f32 list" where
  "atmxMixLayer_nosse lay vol buff fnum =
     (let flag = lay_flag lay in
      if flag = 0 then (lay, buff)
      else
        (let cur = lay_cursor lay; g0 = lay_gain lay;
             g = \<lparr>f2_l = f_mul (f2_l g0) vol, f2_r = f_mul (f2_r g0) vol\<rparr>
         in if flag < 3 then
              (case (if 0 <s lay_fade lay \<and> cur <s lay_end lay then
                       (if snd_cha (the (lay_snd lay)) = 1
                        then atmxMixFadeMono_nosse lay cur g buff fnum
                        else atmxMixFadeStereo_nosse lay cur g buff fnum)
                     else (lay, cur, buff)) of
                 (lay1, cur1, buff1) \<Rightarrow> (clear_stopped flag lay1 cur1, buff1))
            else
              (case (if snd_cha (the (lay_snd lay)) = 1
                     then atmxMixPlayMono_nosse lay (flag = ATOMIX_LOOP) cur g buff fnum
                     else atmxMixPlayStereo_nosse lay (flag = ATOMIX_LOOP) cur g buff fnum) of
                 (lay1, cur1, buff1) \<Rightarrow> (clear_played flag lay1 cur1, buff1))))"

definition atmxMixLayer_sse :: "atmx_layer \<Rightarrow> f32 \<Rightarrow> f32 list \<Rightarrow> u32
    \<Rightarrow> atmx_layer \<times> f32 list" where
  "atmxMixLayer_sse lay vol align asize =
     (let flag = lay_flag lay in
      if flag = 0 then (lay, align)
      else
        (let cur = lay_cursor lay; g = lay_gain lay;
             gmul = \<lparr>f2_l = f_mul (f2_l g) vol, f2_r = f_mul (f2_r g) vol\<rparr>
         in if flag < 3 then
              (case (if 0 <s lay_fade lay \<and> cur <s lay_end lay then
                       (if snd_cha (the (lay_snd lay)) = 1
                        then atmxMixFadeMono_sse lay cur gmul align asize
                        else atmxMixFadeStereo_sse lay cur gmul align asize)
                     else (lay, cur, align)) of
                 (lay1, cur1, align1) \<Rightarrow> (clear_stopped flag lay1 cur1, align1))
            else
              (case (if snd_cha (the (lay_snd lay)) = 1
                     then atmxMixPlayMono_sse lay (flag = ATOMIX_LOOP) cur gmul align asize
                     else atmxMixPlayStereo_sse lay (flag = ATOMIX_LOOP) cur gmul align asize) of
                 (lay1, cur1, align1) \<Rightarrow> (clear_played flag lay1 cur1, align1))))"

text \<open>
  \<^verbatim>\<open>for (int i = 0; i < ATMX_LAYERS; i++) atmxMixLayer(&mix->lays[i], vol, buff, fnum);\<close>
  over the layers \<open>i, i + 1, ...\<close>, \<open>n\<close> of them, with the \<^verbatim>\<open>atmxMixLayer\<close> of the build.
\<close>

fun mix_layers :: "(atmx_layer \<Rightarrow> f32 \<Rightarrow> f32 list \<Rightarrow> u32 \<Rightarrow> atmx_layer \<times> f32 list)
    \<Rightarrow> nat \<Rightarrow> nat \<Rightarrow> (nat \<Rightarrow> atmx_layer) \<Rightarrow> f32 \<Rightarrow> f32 list \<Rightarrow> u32
    \<Rightarrow> (nat \<Rightarrow> atmx_layer) \<times> f32 list" where
  "mix_layers ml 0 i lays vol buff fnum = (lays, buff)"
| "mix_layers ml (Suc n) i lays vol buff fnum =
     (case ml (lays i) vol buff fnum of
        (lay1, buff1) \<Rightarrow> mix_layers ml n (Suc i) (lays(i := lay1)) vol buff1 fnum)"

subsection \<open>The mixing entry point\<close>

text \<open>
  \<^verbatim>\<open>atomixMixerMix\<close> under \<^verbatim>\<open>ATOMIX_NO_SSE\<close>; \<open>clip\<close> is false under \<^verbatim>\<open>ATOMIX_NO_CLIP\<close>.
  The result is the mixer, the caller's buffer and the returned frame count. \<^verbatim>\<open>memset\<close>
  and the clipping loop run over \<^verbatim>\<open>fnum*2\<close> floats, a 32-bit product.
\<close>

definition atomixMixerMix_nosse :: "nat \<Rightarrow> bool \<Rightarrow> atomix_mixer \<Rightarrow> f32 list \<Rightarrow> u32
    \<Rightarrow> atomix_mixer \<times> f32 list \<times> u32" where
  "atomixMixerMix_nosse lb clip mix buff fnum =
     (let n = unat (fnum * 2);
          buff0 = map (\<lambda>x. 0) (take n buff) @ drop n buff;
          vol = mix_volume mix
      in case mix_layers atmxMixLayer_nosse (unat (ATMX_LAYERS lb)) 0 (mix_lays mix) vol buff0 fnum of
           (lays1, buff1) \<Rightarrow>
             (mix\<lparr>mix_lays := lays1\<rparr>,
              (if clip then map clamp1 (take n buff1) @ drop n buff1 else buff1),
              fnum))"

text \<open>
  \<^verbatim>\<open>atomixMixerMix\<close> with SSE. First the frames left over by the last call: all of them
  when more frames are asked for than are left (and the rest of the request is mixed
  behind them, at offset \<open>rem * 2\<close> of the buffer), else as many as are asked for, the
  others moved to the front of \<open>data\<close>. Then the accumulator \<^verbatim>\<open>align\<close> of \<^verbatim>\<open>asize\<close>
  \<^verbatim>\<open>__m128\<close>, four floats each, is cleared, mixed into, clipped (\<^verbatim>\<open>_mm_min_ps\<close> of
  \<^verbatim>\<open>_mm_max_ps\<close>) and copied out, and what is left of it goes to \<open>data\<close> through
  \<^verbatim>\<open>memcpy(mix->data, (float*)align + rnum*2, mix->rem)\<close>, whose count is in bytes.
  The accumulator is an array on the stack, 16 bytes to each \<^verbatim>\<open>__m128\<close>; \<open>stack\<close> is the
  number of bytes that the stack has left for it, and the result is \<open>None\<close> when they do
  not suffice and the call does not return.
\<close>

definition clamp_sse :: "f32 \<Rightarrow> f32" where
  "clamp_sse x = f_min_ps (f_max_ps x F_neg1) F_1"

definition atomixMixerMix_sse :: "nat \<Rightarrow> bool \<Rightarrow> nat \<Rightarrow> atomix_mixer
    \<Rightarrow> f32 list \<Rightarrow> u32 \<Rightarrow> (atomix_mixer \<times> f32 list \<times> u32) option" where
  "atomixMixerMix_sse lb clip stack mix buff fnum =
     (let rnum = fnum in
      if mix_rem mix \<noteq> 0 \<and> \<not> rnum > mix_rem mix then
        (let buff1 = write_floats buff 0 (take (unat (rnum * 2)) (mix_data mix));
             rem1 = mix_rem mix - rnum;
             data1 = (if rem1 \<noteq> 0
                      then write_floats (mix_data mix) 0
                             (take (unat ((3 - rnum) * 2)) (drop (unat (rnum * 2)) (mix_data mix)))
                      else mix_data mix)
         in Some (mix\<lparr>mix_rem := rem1, mix_data := data1\<rparr>, buff1, fnum))
      else
        (let buff1 = (if mix_rem mix \<noteq> 0
                      then write_floats buff 0 (take (unat (mix_rem mix * 2)) (mix_data mix))
                      else buff);
             off = (if mix_rem mix \<noteq> 0 then unat (mix_rem mix * 2) else 0);
             rnum1 = (if mix_rem mix \<noteq> 0 then rnum - mix_rem mix else rnum);
             asize = drop_bit 1 ((rnum1 + 3) AND NOT 3);
             align0 = replicate (4 * unat asize) 0;
             vol = mix_volume mix
         in if stack < 16 * unat asize then None
            else
              (case mix_layers atmxMixLayer_sse (unat (ATMX_LAYERS lb)) 0 (mix_lays mix) vol
                      align0 asize of
                 (lays1, align1) \<Rightarrow>
                   (let align2 = (if clip then map clamp_sse align1 else align1);
                        buff2 = write_floats buff1 off (take (unat (rnum1 * 2)) align2);
                        rem2 = asize * 2 - rnum1;
                        data2 = (if rem2 \<noteq> 0
                                 then memcpy_bytes (mix_data mix)
                                        (drop (unat (rnum1 * 2)) align2) (unat rem2)
                                 else mix_data mix)
                    in Some (mix\<lparr>mix_lays := lays1, mix_rem := rem2, mix_data := data2\<rparr>,
                             buff2, fnum)))))"

section \<open>Scenarios\<close>

text \<open>Concrete sounds and mixers at which the theorems below are evaluated.\<close>

definition const_mono :: atomix_sound where
  "const_mono = \<lparr>snd_cha = 1, snd_len = 8,
     snd_data = [F_1, F_1, F_1, F_1, F_1, F_1, F_1, F_1]\<rparr>"

text \<open>A mixer of two layers, both taken.\<close>

definition full2 :: atomix_mixer where
  "full2 = snd (atomixMixerPlay 1 (snd (atomixMixerPlay 1 (atomixMixerNew F_1 0)
      const_mono ATOMIX_PLAY F_1 0)) const_mono ATOMIX_LOOP F_1 0)"

text \<open>
  A mixer of four layers and volume 1 with the constant mono sound playing at gain 1 and
  pan 0, its fade length 4; the handle and the mixer.
\<close>

definition one_playing :: "u32 \<times> atomix_mixer" where
  "one_playing = atomixMixerPlayAdv 2 (atomixMixerNew F_1 0) const_mono ATOMIX_PLAY F_1 0 0 8 4"

text \<open>The same sound, then stopped through its handle.\<close>

definition one_stopped :: "int \<times> atomix_mixer" where
  "one_stopped = atomixMixerSetState 2 (snd one_playing) (fst one_playing) ATOMIX_STOP"

text \<open>The same sound started in \<^verbatim>\<open>ATOMIX_HALT\<close> instead.\<close>

definition one_halted :: "u32 \<times> atomix_mixer" where
  "one_halted = atomixMixerPlayAdv 2 (atomixMixerNew F_1 0) const_mono ATOMIX_HALT F_1 0 0 8 4"

text \<open>
  A mono sound of 8 frames of \<^verbatim>\<open>FLT_MAX\<close>, the greatest finite float, played in a mixer
  of four layers and volume 1 at the gain 4 and pan 0, without fading; and the same mixer
  with the sound played a second time, at the gain -4.
\<close>

definition loud_mono :: atomix_sound where
  "loud_mono = \<lparr>snd_cha = 1, snd_len = 8,
     snd_data = [F_max, F_max, F_max, F_max, F_max, F_max, F_max, F_max]\<rparr>"

definition one_loud :: atomix_mixer where
  "one_loud = snd (atomixMixerPlay 2 (atomixMixerNew F_1 0) loud_mono ATOMIX_PLAY F_4 0)"

definition two_loud :: atomix_mixer where
  "two_loud = snd (atomixMixerPlay 2 one_loud loud_mono ATOMIX_PLAY F_neg4 0)"

section \<open>Auxiliary facts\<close>

subsection \<open>Layer count and slot index\<close>

lemma LMASK_mask: "ATMX_LMASK lb = mask lb"
  by (simp add: ATMX_LMASK_def ATMX_LAYERS_def mask_eq_exp_minus_1)

lemma slot_eq: "unat (x AND ATMX_LMASK lb) = unat (x::u32) mod 2 ^ lb"
proof -
  have "x AND ATMX_LMASK lb = take_bit lb x"
    by (simp only: LMASK_mask take_bit_eq_mask)
  then have "unat (x AND ATMX_LMASK lb) = take_bit lb (unat x)"
    by (simp only: unsigned_take_bit_eq)
  then show ?thesis by (simp only: take_bit_eq_mod)
qed

lemma slot_less: "unat (x AND ATMX_LMASK lb) < 2 ^ lb"
  by (simp add: slot_eq)

lemma LAYERS_unat:
  assumes "lb < 32"
  shows "unat (ATMX_LAYERS lb) = 2 ^ lb"
proof -
  have lt: "(2::nat) ^ lb < 2 ^ 32"
    using assms by (simp only: power_strict_increasing_iff one_less_numeral_iff semiring_norm)
  have "ATMX_LAYERS lb = (of_nat (2 ^ lb) :: u32)"
    by (simp add: ATMX_LAYERS_def)
  then have "unat (ATMX_LAYERS lb) = 2 ^ lb mod 2 ^ 32"
    by (simp only: unat_of_nat) simp
  with lt show ?thesis by simp
qed

lemma LAYERS_nonzero: "lb < 32 \<Longrightarrow> ATMX_LAYERS lb \<noteq> 0"
proof
  assume "lb < 32" "ATMX_LAYERS lb = 0"
  then have "(2::nat) ^ lb = 0" using LAYERS_unat [of lb] by simp
  then show False by simp
qed

lemma LAYERS_slot: "lb < 32 \<Longrightarrow> unat (ATMX_LAYERS lb AND ATMX_LMASK lb) = 0"
  by (simp add: slot_eq LAYERS_unat)

lemma unat_plus_slot:
  assumes "lb < 32"
  shows "unat (((x::u32) + of_nat i) AND ATMX_LMASK lb) = (unat x + i) mod 2 ^ lb"
proof -
  have dv: "(2::nat) ^ lb dvd 2 ^ 32"
    by (rule le_imp_power_dvd) (use assms in simp)
  have "unat (x + of_nat i) = (unat x + i mod 2 ^ 32) mod 2 ^ 32"
    by (simp add: unat_word_ariths unat_of_nat)
  then have "unat (x + of_nat i) mod 2 ^ lb = (unat x + i mod 2 ^ 32) mod 2 ^ lb"
    using dv by (simp only: mod_mod_cancel)
  also have "\<dots> = (unat x mod 2 ^ lb + (i mod 2 ^ 32) mod 2 ^ lb) mod 2 ^ lb"
    by (simp only: mod_add_eq)
  also have "\<dots> = (unat x mod 2 ^ lb + i mod 2 ^ lb) mod 2 ^ lb"
    using dv by (simp only: mod_mod_cancel)
  also have "\<dots> = (unat x + i) mod 2 ^ lb"
    by (simp only: mod_add_eq)
  finally show ?thesis by (simp only: slot_eq)
qed

lemma slot_cover:
  assumes "k < 2 ^ lb" "lb < 32"
  shows "\<exists>i<2 ^ lb. unat (((x::u32) + of_nat i) AND ATMX_LMASK lb) = k"
proof -
  define P :: nat where "P = 2 ^ lb"
  define a where "a = unat x mod P"
  define i where "i = (k + P - a) mod P"
  have P0: "0 < P" by (simp add: P_def)
  have aP: "a < P" using P0 by (simp add: a_def)
  have iP: "i < P" using P0 by (simp add: i_def)
  have "(unat x + i) mod P = (a + (k + P - a) mod P) mod P"
    unfolding a_def i_def by (simp only: mod_add_left_eq)
  also have "\<dots> = (a + (k + P - a)) mod P"
    by (simp only: mod_add_right_eq)
  also have "\<dots> = (k + P) mod P" using aP by simp
  also have "\<dots> = k" using assms(1) by (simp add: P_def)
  finally have "unat ((x + of_nat i) AND ATMX_LMASK lb) = k"
    using assms(2) by (simp only: unat_plus_slot P_def)
  with iP show ?thesis unfolding P_def by blast
qed

lemma play_probe_none:
  "(\<forall>i<n. lay_flag (mix_lays m (unat ((mix_nid m + of_nat i) AND ATMX_LMASK lb))) \<noteq> 0)
   \<Longrightarrow> play_probe lb n m sd flag gain pan start end' fade = (0, m\<lparr>mix_nid := mix_nid m + of_nat n\<rparr>)"
proof (induction n arbitrary: m)
  case 0
  then show ?case by simp
next
  case (Suc n)
  have h0: "lay_flag (mix_lays m (unat (mix_nid m AND ATMX_LMASK lb))) \<noteq> 0"
    using Suc.prems [rule_format, of 0] by simp
  have hs: "\<forall>i<n. lay_flag (mix_lays (m\<lparr>mix_nid := mix_nid m + 1\<rparr>)
       (unat ((mix_nid (m\<lparr>mix_nid := mix_nid m + 1\<rparr>) + of_nat i) AND ATMX_LMASK lb))) \<noteq> 0"
  proof (intro allI impI)
    fix i assume "i < n"
    then show "lay_flag (mix_lays (m\<lparr>mix_nid := mix_nid m + 1\<rparr>)
       (unat ((mix_nid (m\<lparr>mix_nid := mix_nid m + 1\<rparr>) + of_nat i) AND ATMX_LMASK lb))) \<noteq> 0"
      using Suc.prems [rule_format, of "Suc i"] by (simp add: ac_simps)
  qed
  show ?case
    using h0 Suc.IH [OF hs] by (simp add: Let_def ac_simps)
qed

lemma play_probe_some:
  assumes "lb < 32"
    and "play_probe lb n m sd flag gain pan start end' fade = (h, m')"
    and "h \<noteq> 0"
  shows "lay_flag (mix_lays m (unat (h AND ATMX_LMASK lb))) = 0
    \<and> mix_lays m' = (mix_lays m)(unat (h AND ATMX_LMASK lb) :=
         \<lparr>lay_id = h, lay_flag = flag, lay_cursor = start AND NOT 3,
          lay_gain = atmxGainf2 gain pan, lay_snd = Some sd,
          lay_start = start AND NOT 3, lay_end = end' AND NOT 3,
          lay_fade = (if flag < 3 then 0 else if fade <s 0 then 0 else fade AND NOT 3),
          lay_fmax = (if fade <s 0 then 0 else fade AND NOT 3)\<rparr>)
    \<and> (\<exists>j<n. mix_nid m' = mix_nid m + of_nat j + 1
          \<and> h = (if mix_nid m + of_nat j = 0 then ATMX_LAYERS lb else mix_nid m + of_nat j))"
  using assms(2)
proof (induction n arbitrary: m)
  case 0
  then show ?case using assms(3) by simp
next
  case (Suc n)
  let ?slot = "unat (mix_nid m AND ATMX_LMASK lb)"
  show ?case
  proof (cases "lay_flag (mix_lays m ?slot) = 0")
    case True
    have hh: "h = (if mix_nid m = 0 then ATMX_LAYERS lb else mix_nid m)"
      using Suc.prems True by (simp add: Let_def split: if_splits)
    have sl: "unat (h AND ATMX_LMASK lb) = ?slot"
      using hh LAYERS_slot [OF assms(1)] by (simp split: if_splits)
    have m': "m' = m\<lparr>mix_nid := mix_nid m + 1, mix_lays := (mix_lays m)(?slot :=
         \<lparr>lay_id = h, lay_flag = flag, lay_cursor = start AND NOT 3,
          lay_gain = atmxGainf2 gain pan, lay_snd = Some sd,
          lay_start = start AND NOT 3, lay_end = end' AND NOT 3,
          lay_fade = (if flag < 3 then 0 else if fade <s 0 then 0 else fade AND NOT 3),
          lay_fmax = (if fade <s 0 then 0 else fade AND NOT 3)\<rparr>)\<rparr>"
      using Suc.prems True hh by (cases "mix_lays m ?slot") (auto simp add: Let_def)
    have ex: "\<exists>j<Suc n. mix_nid m' = mix_nid m + of_nat j + 1
          \<and> h = (if mix_nid m + of_nat j = 0 then ATMX_LAYERS lb else mix_nid m + of_nat j)"
      using hh m' by (intro exI [of _ 0]) simp
    show ?thesis using True sl m' ex by simp
  next
    case False
    let ?m1 = "m\<lparr>mix_nid := mix_nid m + 1\<rparr>"
    have "play_probe lb n ?m1 sd flag gain pan start end' fade = (h, m')"
      using Suc.prems False by (simp add: Let_def)
    from Suc.IH [OF this] have ih:
      "lay_flag (mix_lays ?m1 (unat (h AND ATMX_LMASK lb))) = 0
       \<and> mix_lays m' = (mix_lays ?m1)(unat (h AND ATMX_LMASK lb) :=
         \<lparr>lay_id = h, lay_flag = flag, lay_cursor = start AND NOT 3,
          lay_gain = atmxGainf2 gain pan, lay_snd = Some sd,
          lay_start = start AND NOT 3, lay_end = end' AND NOT 3,
          lay_fade = (if flag < 3 then 0 else if fade <s 0 then 0 else fade AND NOT 3),
          lay_fmax = (if fade <s 0 then 0 else fade AND NOT 3)\<rparr>)
       \<and> (\<exists>j<n. mix_nid m' = mix_nid ?m1 + of_nat j + 1
          \<and> h = (if mix_nid ?m1 + of_nat j = 0 then ATMX_LAYERS lb else mix_nid ?m1 + of_nat j))" .
    then have a: "lay_flag (mix_lays m (unat (h AND ATMX_LMASK lb))) = 0"
      and b: "mix_lays m' = (mix_lays m)(unat (h AND ATMX_LMASK lb) :=
         \<lparr>lay_id = h, lay_flag = flag, lay_cursor = start AND NOT 3,
          lay_gain = atmxGainf2 gain pan, lay_snd = Some sd,
          lay_start = start AND NOT 3, lay_end = end' AND NOT 3,
          lay_fade = (if flag < 3 then 0 else if fade <s 0 then 0 else fade AND NOT 3),
          lay_fmax = (if fade <s 0 then 0 else fade AND NOT 3)\<rparr>)"
      by simp_all
    from ih obtain j where c: "j < n" "mix_nid m' = mix_nid ?m1 + of_nat j + 1"
         "h = (if mix_nid ?m1 + of_nat j = 0 then ATMX_LAYERS lb else mix_nid ?m1 + of_nat j)"
      by blast
    have "\<exists>j<Suc n. mix_nid m' = mix_nid m + of_nat j + 1
          \<and> h = (if mix_nid m + of_nat j = 0 then ATMX_LAYERS lb else mix_nid m + of_nat j)"
      using c by (intro exI [of _ "Suc j"]) (simp add: ac_simps)
    with a b show ?thesis by simp
  qed
qed

lemma play_probe_zero:
  assumes "lb < 32"
  shows "fst (play_probe lb n m sd flag gain pan start end' fade) = 0
   \<Longrightarrow> i < n \<Longrightarrow> lay_flag (mix_lays m (unat ((mix_nid m + of_nat i) AND ATMX_LMASK lb))) \<noteq> 0"
proof (induction n arbitrary: m i)
  case 0
  then show ?case by simp
next
  case (Suc n)
  let ?m1 = "m\<lparr>mix_nid := mix_nid m + 1\<rparr>"
  have nf: "lay_flag (mix_lays m (unat (mix_nid m AND ATMX_LMASK lb))) \<noteq> 0"
    using Suc.prems(1) LAYERS_nonzero [OF assms] by (auto simp add: Let_def split: if_splits)
  then have z: "fst (play_probe lb n ?m1 sd flag gain pan start end' fade) = 0"
    using Suc.prems(1) by (simp add: Let_def)
  show ?case
  proof (cases i)
    case 0
    then show ?thesis using nf by simp
  next
    case (Suc i')
    then have "i' < n" using Suc.prems(2) by simp
    from Suc.IH [OF z this] show ?thesis using Suc by (simp add: ac_simps)
  qed
qed

lemma play_probe_free:
  assumes "lb < 32" "k < 2 ^ lb" "lay_flag (mix_lays m k) = 0" "2 ^ lb \<le> n"
  shows "fst (play_probe lb n m sd flag gain pan start end' fade) \<noteq> 0"
proof
  assume z: "fst (play_probe lb n m sd flag gain pan start end' fade) = 0"
  obtain i where i: "i < 2 ^ lb" "unat ((mix_nid m + of_nat i) AND ATMX_LMASK lb) = k"
    using slot_cover [OF assms(2,1)] by blast
  then have "i < n" using assms(4) by simp
  from play_probe_zero [OF assms(1) z this] show False using i(2) assms(3) by simp
qed

lemma sint_sub_small:
  assumes "sint (e::i32) - sint (s::i32) < 4" "\<not> e <s 4"
  shows "(e - s) <s 4"
proof -
  have e4: "4 \<le> sint e" using assms(2) by (simp add: word_sless_alt)
  have sb: "sint s < 2 ^ 31" "- (2 ^ 31) \<le> sint s" "sint e < 2 ^ 31"
    using sint_lt [of s] sint_ge [of s] sint_lt [of e] by simp_all
  have "sint (e - s) = signed_take_bit 31 (sint e - sint s)"
    by (simp add: sint_word_ariths)
  also have "\<dots> = sint e - sint s"
    using e4 sb assms(1) by (intro signed_take_bit_int_eq_self) simp_all
  finally show ?thesis using assms(1) by (simp add: word_sless_alt)
qed


lemma stop_all_loop_at:
  "stop_all_loop n i lays k =
     (if i \<le> k \<and> k < i + n \<and> 1 < lay_flag (lays k)
      then (lays k)\<lparr>lay_flag := ATOMIX_STOP\<rparr> else lays k)"
proof (induction n arbitrary: i lays)
  case 0
  then show ?case by auto
next
  case (Suc n)
  show ?case by (auto simp add: Suc.IH ATOMIX_STOP_def)
qed

lemma stop_all_flag:
  assumes "lb < 32" "k < 2 ^ lb"
  shows "lay_flag (mix_lays (atomixMixerStopAll lb m) k) = 0
       \<or> lay_flag (mix_lays (atomixMixerStopAll lb m) k) = ATOMIX_STOP"
proof -
  have "lay_flag (mix_lays m k) = 0 \<or> lay_flag (mix_lays m k) = 1 \<or> 1 < lay_flag (mix_lays m k)"
    by (metis antisym_conv3 word_less_1)
  then show ?thesis using assms
    by (auto simp add: atomixMixerStopAll_def stop_all_loop_at LAYERS_unat ATOMIX_STOP_def)
qed

subsection \<open>Evaluating float arithmetic\<close>

lemma bit_len_0: "bit_len 0 = 0"
  by simp

lemma bit_len_1: "bit_len (Suc 0) = 1" "bit_len 1 = 1"
  by simp_all

lemma bit_len_numeral: "bit_len (numeral k) = 1 + bit_len (numeral k div 2)"
  by (subst bit_len.simps) simp

declare bit_len.simps [simp del]

lemmas f_eval = f_neg_def f_exp_def f_man_def f_nan_def f_inf_def f_sig_def f_qe_def f_sint_def
  float_value_def f_enc_def f_zero_def f_infty_def f_round_def f_quiet_def f_add_def f_sub_def
  f_mul_def f_div_def f_of_int_def f_lt_def f_gt_def bit_len_0 bit_len_1 bit_len_numeral Let_def
  word_sless_alt

subsection \<open>Float results that are exact\<close>



























subsection \<open>Float arithmetic at the values of the scenarios\<close>

text \<open>The pan law at gain 1, 4 and -4 and pan 0; the volume 1.\<close>

lemma f_pan0:
  "f_lt 0 F_neg1 = False" "f_gt 0 F_1 = False" "f_div 0 F_2 = 0"
  "f_sub F_half 0 = F_half" "f_add F_half 0 = F_half"
  "f_mul F_1 F_half = F_half" "f_mul F_half F_1 = F_half"
  "f_mul F_4 F_half = F_2" "f_mul F_2 F_1 = F_2"
  "f_mul F_neg4 F_half = F_neg2" "f_mul F_neg2 F_1 = F_neg2"
  by (simp_all add: f_eval)

text \<open>Accumulating 1/2 and clipping it.\<close>

lemma f_acc_half:
  "f_add 0 F_half = F_half" "f_lt F_half F_neg1 = False" "f_gt F_half F_1 = False"
  "f_gt F_half F_neg1 = True" "f_lt F_half F_1 = True"
  "f_lt 0 F_1 = True" "f_gt 0 F_neg1 = True"
  by (simp_all add: f_eval)

text \<open>The fade multipliers 0/4, 1/4, 2/4 and 3/4, and the frames faded by them.\<close>

lemma f_fade4:
  "f_div (f_of_int 0) (f_of_int 4) = 0"
  "f_div (f_of_int 1) (f_of_int 4) = F_quarter"
  "f_div (f_of_int 2) (f_of_int 4) = F_half"
  "f_div (f_of_int 3) (f_of_int 4) = F_3quarters"
  "f_mul F_1 0 = 0" "f_mul F_1 F_quarter = F_quarter" "f_mul F_1 F_3quarters = F_3quarters"
  "f_mul 0 F_half = 0" "f_mul F_quarter F_half = F_eighth" "f_mul F_half F_half = F_quarter"
  "f_mul F_3quarters F_half = F_3eighths"
  "f_add 0 0 = 0" "f_add 0 F_eighth = F_eighth" "f_add 0 F_quarter = F_quarter"
  "f_add 0 F_3eighths = F_3eighths"
  "f_lt F_eighth F_neg1 = False" "f_gt F_eighth F_1 = False"
  "f_lt F_quarter F_neg1 = False" "f_gt F_quarter F_1 = False"
  "f_lt F_3eighths F_neg1 = False" "f_gt F_3eighths F_1 = False"
  by (simp_all add: f_eval)

text \<open>
  Two layers that overflow: \<^verbatim>\<open>FLT_MAX\<close> times 2 is \<open>+inf\<close>, which is above 1; times -2 it
  is \<open>-inf\<close>, and their sum is a NaN, which is neither below -1 nor above 1.
\<close>

lemma f_overflow:
  "f_mul F_max F_2 = F_inf" "f_mul F_max F_neg2 = F_neg_inf"
  "f_add 0 F_inf = F_inf" "f_add F_inf F_neg_inf = F_nan"
  "f_lt F_nan F_neg1 = False" "f_gt F_nan F_1 = False"
  "f_gt F_nan F_neg1 = False" "f_lt F_neg1 F_1 = True"
  "f_nan F_nan = True"
  "f_lt F_inf F_neg1 = False" "f_gt F_inf F_1 = True" "f_gt F_inf F_neg1 = True"
  "f_lt F_inf F_1 = False"
  by (simp_all add: f_eval)

text \<open>The three low bytes of the float 1/2 are 0.\<close>

lemma patch_half: "patch_bytes 3 0 F_half = 0"
  by (simp add: patch_bytes_def mask_eq_exp_minus_1)

lemmas f_facts = f_pan0 f_acc_half f_fade4 f_overflow

subsection \<open>Unrolling a loop at a numeral\<close>

lemma stop_all_loop_unroll:
  "0 < n \<Longrightarrow> stop_all_loop n i lays =
     stop_all_loop (n - 1) (Suc i)
       (if lay_flag (lays i) > 1 then lays(i := (lays i)\<lparr>lay_flag := ATOMIX_STOP\<rparr>) else lays)"
  by (cases n) simp_all

lemma play_probe_unroll:
  "0 < n \<Longrightarrow> play_probe lb n mix sd flag gain pan start end' fade =
     (let id0 = mix_nid mix;
          mix1 = mix\<lparr>mix_nid := mix_nid mix + 1\<rparr>;
          slot = unat (id0 AND ATMX_LMASK lb);
          lay = mix_lays mix1 slot
      in if lay_flag lay = 0 then
           (let id1 = (if id0 = 0 then ATMX_LAYERS lb else id0);
                lay1 = lay\<lparr>lay_id := id1, lay_snd := Some sd\<rparr>;
                lay2 = lay1\<lparr>lay_start := start AND NOT 3, lay_end := end' AND NOT 3\<rparr>;
                lay3 = lay2\<lparr>lay_fmax := (if fade <s 0 then 0 else fade AND NOT 3)\<rparr>;
                lay4 = lay3\<lparr>lay_fade := (if flag < 3 then 0 else lay_fmax lay3)\<rparr>;
                lay5 = lay4\<lparr>lay_gain := atmxGainf2 gain pan\<rparr>;
                lay6 = lay5\<lparr>lay_cursor := lay_start lay5\<rparr>;
                lay7 = lay6\<lparr>lay_flag := flag\<rparr>
            in (id1, mix1\<lparr>mix_lays := (mix_lays mix1)(slot := lay7)\<rparr>))
         else play_probe lb (n - 1) mix1 sd flag gain pan start end' fade)"
  by (cases n) (simp_all add: Let_def)

lemma mix_layers_unroll:
  "0 < n \<Longrightarrow> mix_layers ml n i lays vol buff fnum =
     (case ml (lays i) vol buff fnum of
        (lay1, buff1) \<Rightarrow> mix_layers ml (n - 1) (Suc i) (lays(i := lay1)) vol buff1 fnum)"
  by (cases n) simp_all

lemma fade_out_loop_unroll:
  "i < b \<Longrightarrow> fade_out_loop acc st fmax b i fade cur buff =
        (if fade = 0 then (fade, cur, buff)
         else fade_out_loop acc st fmax b (i + 2) (fade - st) (cur + st)
           (if 0 \<le>s cur
            then acc (f_div (f_of_int fade) (f_of_int fmax)) cur i buff
            else buff))"
  "\<not> i < b \<Longrightarrow> fade_out_loop acc st fmax b i fade cur buff = (fade, cur, buff)"
  by simp_all

lemma play_out_loop_unroll:
  "i < b \<Longrightarrow> play_out_loop acc st end' b i cur buff =
        (if cur = end' then (cur, buff)
         else play_out_loop acc st end' b (i + 2) (cur + st)
           (if 0 \<le>s cur then acc cur i buff else buff))"
  "\<not> i < b \<Longrightarrow> play_out_loop acc st end' b i cur buff = (cur, buff)"
  by simp_all

lemma fade_in_loop_unroll:
  "i < b \<Longrightarrow> fade_in_loop acc st loop start end' fmax b i fade cur0 buff =
        (if cur0 = end' \<and> \<not> loop then (fade, cur0, buff)
         else
           (let cur = (if cur0 = end' then start else cur0)
            in fade_in_loop acc st loop start end' fmax b (i + 2)
                 (if fade <s fmax then fade + st else fade) (cur + st)
                 (if 0 \<le>s cur
                  then acc (f_div (f_of_int fade) (f_of_int fmax)) cur i buff
                  else buff)))"
  "\<not> i < b \<Longrightarrow> fade_in_loop acc st loop start end' fmax b i fade cur0 buff = (fade, cur0, buff)"
  by simp_all

lemma play_loop_unroll:
  "i < b \<Longrightarrow> play_loop acc st loop start end' b i cur0 buff =
        (if cur0 = end' \<and> \<not> loop then (cur0, buff)
         else
           (let cur = (if cur0 = end' then start else cur0)
            in play_loop acc st loop start end' b (i + 2) (cur + st)
                 (if 0 \<le>s cur then acc cur i buff else buff)))"
  "\<not> i < b \<Longrightarrow> play_loop acc st loop start end' b i cur0 buff = (cur0, buff)"
  by simp_all

declare fade_out_loop.simps [simp del] play_out_loop.simps [simp del]
  fade_in_loop.simps [simp del] play_loop.simps [simp del]

lemma replicate_unroll: "0 < n \<Longrightarrow> replicate n x = x # replicate (n - 1) x"
  by (cases n) simp_all

lemmas scen_simps = replicate_unroll atomixMixerPlay_def atomixMixerPlayAdv_def atomixMixerNew_def const_mono_def
  loud_mono_def
  ATMX_LAYERS_def ATMX_LMASK_def Let_def zero_layer_def word_sless_alt word_sle_eq play_probe_unroll
  stop_all_loop_unroll atomixMixerStopAll_def
  ATOMIX_PLAY_def ATOMIX_STOP_def ATOMIX_LOOP_def ATOMIX_HALT_def atmxGainf2_def
  atomixMixerSetState_def cswap_flag_def

lemmas mix_simps = atomixMixerMix_nosse_def atomixMixerMix_sse_def mix_layers_unroll
  atmxMixLayer_nosse_def atmxMixLayer_sse_def
  atmxMixFadeMono_nosse_def atmxMixFadeStereo_nosse_def atmxMixPlayMono_nosse_def atmxMixPlayStereo_nosse_def
  atmxMixFadeMono_sse_def atmxMixFadeStereo_sse_def atmxMixPlayMono_sse_def atmxMixPlayStereo_sse_def
  fade_kernel_def play_kernel_def swap_back_def cswap_cursor_def clear_stopped_def clear_played_def
  fade_out_loop_unroll play_out_loop_unroll fade_in_loop_unroll play_loop_unroll
  accf_nosse_def acc_nosse_def accf_sse_def acc_sse_def add_frame_def add_block_def
  mono_frame_def stereo_frame_def mono_block_def stereo_block_def cur_mod_len_def
  signed_modulo_int_def write_floats_def memcpy_bytes_def clamp1_def clamp_sse_def
  f_max_ps_def f_min_ps_def patch_half

subsection \<open>The scenarios, evaluated\<close>

lemma one_playing_state: "snd one_playing = \<lparr>mix_nid = 1, mix_volume = F_1,
    mix_lays = (\<lambda>_. zero_layer)(0 := \<lparr>lay_id = 4, lay_flag = 3, lay_cursor = 0,
       lay_gain = \<lparr>f2_l = F_half, f2_r = F_half\<rparr>, lay_snd = Some const_mono,
       lay_start = 0, lay_end = 8, lay_fade = 4, lay_fmax = 4\<rparr>),
    mix_fade = 0, mix_rem = 0, mix_data = [0, 0, 0, 0, 0, 0]\<rparr>"
  by (simp add: one_playing_def atomixMixerPlayAdv_def atomixMixerNew_def
      ATMX_LAYERS_def ATMX_LMASK_def Let_def word_sless_alt play_probe_unroll
      ATOMIX_PLAY_def atmxGainf2_def zero_layer_def f_facts)

lemma one_playing_mix4: "fst (snd (atomixMixerMix_nosse 2 True (snd one_playing)
     [F_9, F_9, F_9, F_9, F_9, F_9, F_9, F_9, F_9, F_9] 4))
   = [F_half, F_half, F_half, F_half, F_half, F_half, F_half, F_half, F_9, F_9]"
  by (simp add: one_playing_state mix_simps scen_simps f_facts)

lemma one_halted_mix4: "fst (snd (atomixMixerMix_nosse 2 True
     (snd (atomixMixerSetState 2 (snd one_halted) (fst one_halted) ATOMIX_PLAY))
     [F_9, F_9, F_9, F_9, F_9, F_9, F_9, F_9, F_9, F_9] 4))
   = [0, 0, F_eighth, F_eighth, F_quarter, F_quarter, F_3eighths, F_3eighths, F_9, F_9]"
  by (simp add: one_halted_def mix_simps scen_simps f_facts)

lemma one_loud_state: "one_loud = \<lparr>mix_nid = 1, mix_volume = F_1,
    mix_lays = (\<lambda>_. zero_layer)
      (0 := \<lparr>lay_id = 4, lay_flag = 3, lay_cursor = 0,
         lay_gain = \<lparr>f2_l = F_2, f2_r = F_2\<rparr>, lay_snd = Some loud_mono,
         lay_start = 0, lay_end = 8, lay_fade = 0, lay_fmax = 0\<rparr>),
    mix_fade = 0, mix_rem = 0, mix_data = [0, 0, 0, 0, 0, 0]\<rparr>"
  by (simp add: one_loud_def loud_mono_def scen_simps f_facts)

lemma two_loud_state: "two_loud = \<lparr>mix_nid = 2, mix_volume = F_1,
    mix_lays = (\<lambda>_. zero_layer)
      (0 := \<lparr>lay_id = 4, lay_flag = 3, lay_cursor = 0,
         lay_gain = \<lparr>f2_l = F_2, f2_r = F_2\<rparr>, lay_snd = Some loud_mono,
         lay_start = 0, lay_end = 8, lay_fade = 0, lay_fmax = 0\<rparr>,
       1 := \<lparr>lay_id = 1, lay_flag = 3, lay_cursor = 0,
         lay_gain = \<lparr>f2_l = F_neg2, f2_r = F_neg2\<rparr>, lay_snd = Some loud_mono,
         lay_start = 0, lay_end = 8, lay_fade = 0, lay_fmax = 0\<rparr>),
    mix_fade = 0, mix_rem = 0, mix_data = [0, 0, 0, 0, 0, 0]\<rparr>"
  by (simp add: two_loud_def one_loud_state loud_mono_def scen_simps f_facts)

section \<open>Properties\<close>

subsection \<open>The pan law\<close>




subsection \<open>Layer allocation\<close>

text \<open>
  C8. \<^verbatim>\<open>atomixMixerPlayAdv\<close> returns handle 0 and leaves the whole mixer as it was (no
  layer field written, \<open>nid\<close> unchanged) whenever the state is outside
  \<open>{STOP, HALT, PLAY, LOOP}\<close>, or \<open>end - start < 4\<close>, or \<open>end < 4\<close>: both for the
  difference of the integers and for the wrapped difference that the 32-bit subtraction
  computes. The probing loop is not entered.
\<close>

theorem C8_bad_argument:
  assumes "flag < 1 \<or> 4 < flag \<or> sint end' - sint start < 4 \<or> (end' - start) <s 4 \<or> end' <s 4"
  shows "atomixMixerPlayAdv lb m sd flag gain pan start end' fade = (0, m)"
proof -
  have "flag < 1 \<or> 4 < flag \<or> (end' - start) <s 4 \<or> end' <s 4"
    using assms sint_sub_small [of end' start] by blast
  then show ?thesis by (auto simp add: atomixMixerPlayAdv_def)
qed

theorem C8_bad_argument_witness:
  "atomixMixerPlayAdv 2 (atomixMixerNew F_1 0) const_mono 5 F_1 0 0 8 0 = (0, atomixMixerNew F_1 0)
   \<and> atomixMixerPlayAdv 2 (atomixMixerNew F_1 0) const_mono ATOMIX_PLAY F_1 0 6 8 0 = (0, atomixMixerNew F_1 0)
   \<and> atomixMixerPlayAdv 2 (atomixMixerNew F_1 0) const_mono ATOMIX_PLAY F_1 0 (-8) 0 0 = (0, atomixMixerNew F_1 0)"
  using C8_bad_argument [of 5 8 0 2 "atomixMixerNew F_1 0" const_mono F_1 0 0]
    C8_bad_argument [of ATOMIX_PLAY 8 6 2 "atomixMixerNew F_1 0" const_mono F_1 0 0]
    C8_bad_argument [of ATOMIX_PLAY 0 "-8" 2 "atomixMixerNew F_1 0" const_mono F_1 0 0]
  by (simp add: word_sless_alt)

text \<open>
  C10. With valid arguments and no free layer among the \<open>2 ^ lb\<close> layers,
  \<^verbatim>\<open>atomixMixerPlayAdv\<close> returns 0, writes no layer field, and leaves \<open>nid\<close>
  advanced by exactly \<^verbatim>\<open>ATMX_LAYERS\<close> (in 32-bit arithmetic), so that the slot index
  \<open>nid AND ATMX_LMASK\<close> from which the next allocation starts probing is unchanged.
\<close>

theorem C10_no_slot:
  assumes "lb < 32"
    and "\<not> (flag < 1 \<or> 4 < flag)" and "\<not> ((end' - start) <s 4 \<or> end' <s 4)"
    and "\<forall>k<2 ^ lb. lay_flag (mix_lays m k) \<noteq> 0"
  shows "atomixMixerPlayAdv lb m sd flag gain pan start end' fade =
           (0, m\<lparr>mix_nid := mix_nid m + ATMX_LAYERS lb\<rparr>)
    \<and> unat (mix_nid m + ATMX_LAYERS lb) = (unat (mix_nid m) + 2 ^ lb) mod 2 ^ 32
    \<and> unat ((mix_nid m + ATMX_LAYERS lb) AND ATMX_LMASK lb) = unat (mix_nid m AND ATMX_LMASK lb)"
proof -
  have nf: "\<forall>i<unat (ATMX_LAYERS lb).
      lay_flag (mix_lays m (unat ((mix_nid m + of_nat i) AND ATMX_LMASK lb))) \<noteq> 0"
    using assms(4) slot_less by blast
  have a: "atomixMixerPlayAdv lb m sd flag gain pan start end' fade =
           (0, m\<lparr>mix_nid := mix_nid m + ATMX_LAYERS lb\<rparr>)"
    using assms(2,3) play_probe_none [OF nf] by (simp add: atomixMixerPlayAdv_def)
  have b: "unat (mix_nid m + ATMX_LAYERS lb) = (unat (mix_nid m) + 2 ^ lb) mod 2 ^ 32"
    by (simp add: unat_word_ariths LAYERS_unat [OF assms(1)])
  have "unat ((mix_nid m + of_nat (2 ^ lb)) AND ATMX_LMASK lb) = (unat (mix_nid m) + 2 ^ lb) mod 2 ^ lb"
    by (rule unat_plus_slot [OF assms(1)])
  moreover have "(of_nat (2 ^ lb) :: u32) = ATMX_LAYERS lb"
    by (simp add: ATMX_LAYERS_def)
  ultimately have c: "unat ((mix_nid m + ATMX_LAYERS lb) AND ATMX_LMASK lb) = unat (mix_nid m AND ATMX_LMASK lb)"
    by (simp add: slot_eq)
  from a b c show ?thesis by blast
qed

theorem C10_no_slot_witness:
  "lay_flag (mix_lays full2 0) = ATOMIX_PLAY \<and> lay_flag (mix_lays full2 1) = ATOMIX_LOOP
   \<and> atomixMixerPlayAdv 1 full2 const_mono ATOMIX_PLAY F_1 0 0 8 0 =
        (0, full2\<lparr>mix_nid := mix_nid full2 + ATMX_LAYERS 1\<rparr>)
   \<and> mix_nid full2 + ATMX_LAYERS 1 = 4"
proof -
  have h: "\<forall>k<2 ^ 1. lay_flag (mix_lays full2 k) \<noteq> 0"
    by (simp add: full2_def scen_simps less_Suc_eq)
  have a: "\<not> (ATOMIX_PLAY < 1 \<or> 4 < ATOMIX_PLAY)" by (simp add: ATOMIX_PLAY_def)
  have b: "\<not> (((8::i32) - 0) <s 4 \<or> (8::i32) <s 4)" by simp
  have c: "(1::nat) < 32" by simp
  have d: "mix_nid full2 + ATMX_LAYERS 1 = 4"
    by (simp add: full2_def scen_simps)
  have e: "lay_flag (mix_lays full2 0) = ATOMIX_PLAY" "lay_flag (mix_lays full2 1) = ATOMIX_LOOP"
    by (simp_all add: full2_def scen_simps)
  from C10_no_slot [OF c a b h] d e show ?thesis by simp
qed

text \<open>
  C6. A successful \<^verbatim>\<open>atomixMixerPlayAdv\<close> or \<^verbatim>\<open>atomixMixerPlay\<close> (one that returns a
  nonzero handle \<open>h\<close>) leaves the layer at index \<open>h AND ATMX_LMASK\<close> with \<open>id = h\<close> and
  with the requested state as its flag. With valid arguments and a free layer either call
  does return a nonzero handle (for \<^verbatim>\<open>atomixMixerPlay\<close> the arguments are valid when the
  state is and the sound has 4 frames or more). When the counter stands at 0 and layer 0 is free, the
  handle is \<^verbatim>\<open>ATMX_LAYERS\<close>, which is not 0 and addresses slot 0 as 0 would.
\<close>

theorem C6_handle:
  assumes "lb < 32"
  shows "(fst (atomixMixerPlayAdv lb m sd flag gain pan start end' fade) \<noteq> 0 \<longrightarrow>
        lay_id (mix_lays (snd (atomixMixerPlayAdv lb m sd flag gain pan start end' fade))
          (unat (fst (atomixMixerPlayAdv lb m sd flag gain pan start end' fade) AND ATMX_LMASK lb)))
          = fst (atomixMixerPlayAdv lb m sd flag gain pan start end' fade)
      \<and> lay_flag (mix_lays (snd (atomixMixerPlayAdv lb m sd flag gain pan start end' fade))
          (unat (fst (atomixMixerPlayAdv lb m sd flag gain pan start end' fade) AND ATMX_LMASK lb)))
          = flag)
    \<and> (fst (atomixMixerPlay lb m sd flag gain pan) \<noteq> 0 \<longrightarrow>
        lay_id (mix_lays (snd (atomixMixerPlay lb m sd flag gain pan))
          (unat (fst (atomixMixerPlay lb m sd flag gain pan) AND ATMX_LMASK lb)))
          = fst (atomixMixerPlay lb m sd flag gain pan)
      \<and> lay_flag (mix_lays (snd (atomixMixerPlay lb m sd flag gain pan))
          (unat (fst (atomixMixerPlay lb m sd flag gain pan) AND ATMX_LMASK lb)))
          = flag)
    \<and> (\<not> flag < 1 \<and> \<not> 4 < flag \<and> \<not> (end' - start) <s 4 \<and> \<not> end' <s 4
          \<and> (\<exists>k<2 ^ lb. lay_flag (mix_lays m k) = 0) \<longrightarrow>
        fst (atomixMixerPlayAdv lb m sd flag gain pan start end' fade) \<noteq> 0)
    \<and> (\<not> flag < 1 \<and> \<not> 4 < flag \<and> \<not> snd_len sd <s 4
          \<and> (\<exists>k<2 ^ lb. lay_flag (mix_lays m k) = 0) \<longrightarrow>
        fst (atomixMixerPlay lb m sd flag gain pan) \<noteq> 0)
    \<and> (\<not> flag < 1 \<and> \<not> 4 < flag \<and> \<not> (end' - start) <s 4 \<and> \<not> end' <s 4
          \<and> mix_nid m = 0 \<and> lay_flag (mix_lays m 0) = 0 \<longrightarrow>
        fst (atomixMixerPlayAdv lb m sd flag gain pan start end' fade) = ATMX_LAYERS lb)
    \<and> ATMX_LAYERS lb \<noteq> 0
    \<and> unat (ATMX_LAYERS lb AND ATMX_LMASK lb) = 0"
proof -
  have adv: "lay_id (mix_lays m' (unat (h AND ATMX_LMASK lb))) = h
      \<and> lay_flag (mix_lays m' (unat (h AND ATMX_LMASK lb))) = flag"
    if "atomixMixerPlayAdv lb m sd flag gain pan s e f = (h, m')" "h \<noteq> 0" for s e f h m'
  proof -
    have "play_probe lb (unat (ATMX_LAYERS lb)) m sd flag gain pan s e f = (h, m')"
      using that by (auto simp add: atomixMixerPlayAdv_def split: if_splits)
    from play_probe_some [OF assms this that(2)] show ?thesis by simp
  qed
  have p1: "fst (atomixMixerPlayAdv lb m sd flag gain pan s e f) \<noteq> 0 \<longrightarrow>
        lay_id (mix_lays (snd (atomixMixerPlayAdv lb m sd flag gain pan s e f))
          (unat (fst (atomixMixerPlayAdv lb m sd flag gain pan s e f) AND ATMX_LMASK lb)))
          = fst (atomixMixerPlayAdv lb m sd flag gain pan s e f)
      \<and> lay_flag (mix_lays (snd (atomixMixerPlayAdv lb m sd flag gain pan s e f))
          (unat (fst (atomixMixerPlayAdv lb m sd flag gain pan s e f) AND ATMX_LMASK lb)))
          = flag" for s e f
    using adv [of s e f "fst (atomixMixerPlayAdv lb m sd flag gain pan s e f)"
        "snd (atomixMixerPlayAdv lb m sd flag gain pan s e f)"] by simp
  have p3: "fst (atomixMixerPlayAdv lb m sd flag gain pan s e f) \<noteq> 0"
    if "\<not> flag < 1" "\<not> 4 < flag" "\<not> (e - s) <s 4" "\<not> e <s 4"
       "k < 2 ^ lb" "lay_flag (mix_lays m k) = 0" for k s e f
    using that play_probe_free [OF assms that(5,6), of "unat (ATMX_LAYERS lb)"]
    by (simp add: atomixMixerPlayAdv_def LAYERS_unat [OF assms])
  have p3a: "\<not> flag < 1 \<and> \<not> 4 < flag \<and> \<not> (end' - start) <s 4 \<and> \<not> end' <s 4
          \<and> (\<exists>k<2 ^ lb. lay_flag (mix_lays m k) = 0) \<longrightarrow>
        fst (atomixMixerPlayAdv lb m sd flag gain pan start end' fade) \<noteq> 0"
    using p3 [where s = start and e = end' and f = fade] by blast
  have p3b: "\<not> flag < 1 \<and> \<not> 4 < flag \<and> \<not> snd_len sd <s 4
          \<and> (\<exists>k<2 ^ lb. lay_flag (mix_lays m k) = 0) \<longrightarrow>
        fst (atomixMixerPlay lb m sd flag gain pan) \<noteq> 0"
    using p3 [where s = 0 and e = "snd_len sd" and f = "mix_fade m"]
    unfolding atomixMixerPlay_def by auto
  have p4: "fst (atomixMixerPlayAdv lb m sd flag gain pan start end' fade) = ATMX_LAYERS lb"
    if "\<not> flag < 1" "\<not> 4 < flag" "\<not> (end' - start) <s 4" "\<not> end' <s 4"
       "mix_nid m = 0" "lay_flag (mix_lays m 0) = 0"
  proof -
    have "0 < unat (ATMX_LAYERS lb)"
      by (simp only: LAYERS_unat [OF assms]) simp
    then obtain n where n: "unat (ATMX_LAYERS lb) = Suc n"
      using gr0_implies_Suc by blast
    show ?thesis using that
      by (simp add: atomixMixerPlayAdv_def n Let_def)
  qed
  show ?thesis
    using p1 [of start end' fade] p1 [of 0 "snd_len sd" "mix_fade m"] p3a p3b p4
      LAYERS_nonzero [OF assms] LAYERS_slot [OF assms]
    unfolding atomixMixerPlay_def by blast
qed

theorem C6_handle_witness:
  "fst one_playing = 4 \<and> unat (fst one_playing AND ATMX_LMASK 2) = 0
   \<and> lay_id (mix_lays (snd one_playing) 0) = 4
   \<and> lay_flag (mix_lays (snd one_playing) 0) = ATOMIX_PLAY
   \<and> ATMX_LAYERS 2 = 4
   \<and> fst (atomixMixerPlay 2 (atomixMixerNew F_1 0) const_mono ATOMIX_LOOP F_1 0) = 4
   \<and> lay_id (mix_lays (snd (atomixMixerPlay 2 (atomixMixerNew F_1 0) const_mono ATOMIX_LOOP F_1 0)) 0) = 4
   \<and> lay_flag (mix_lays (snd (atomixMixerPlay 2 (atomixMixerNew F_1 0) const_mono ATOMIX_LOOP F_1 0)) 0)
        = ATOMIX_LOOP"
proof -
  have c: "(2::nat) < 32" by simp
  have p: "fst (atomixMixerPlay 2 (atomixMixerNew F_1 0) const_mono ATOMIX_LOOP F_1 0) = 4"
    by (simp add: scen_simps)
  have f: "fst one_playing = 4"
    by (simp add: one_playing_def scen_simps)
  have s: "unat ((4::u32) AND ATMX_LMASK 2) = 0" "ATMX_LAYERS 2 = 4"
    by (simp_all add: scen_simps)
  from C6_handle [OF c, of "atomixMixerNew F_1 0" const_mono ATOMIX_PLAY F_1 0 0 8 4]
    C6_handle [OF c, of "atomixMixerNew F_1 0" const_mono ATOMIX_LOOP F_1 0 0 8 4] f s p
  show ?thesis by (simp add: one_playing_def)
qed

subsection \<open>Handle-addressed controls\<close>

text \<open>
  C7. After \<^verbatim>\<open>atomixMixerStopAll\<close> every layer's flag is 0 (free) or \<^verbatim>\<open>ATOMIX_STOP\<close>;
  so \<^verbatim>\<open>atomixMixerSetGainPan\<close>, \<^verbatim>\<open>atomixMixerSetCursor\<close> and \<^verbatim>\<open>atomixMixerSetState\<close>
  then return their failure value 0 for every handle and leave the mixer as it is.
\<close>

theorem C7_stop_all:
  assumes "lb < 32"
  shows "(\<forall>k<2 ^ lb. lay_flag (mix_lays (atomixMixerStopAll lb m) k) = 0
            \<or> lay_flag (mix_lays (atomixMixerStopAll lb m) k) = ATOMIX_STOP)
    \<and> atomixMixerSetGainPan lb (atomixMixerStopAll lb m) h gain pan = (0, atomixMixerStopAll lb m)
    \<and> atomixMixerSetCursor lb (atomixMixerStopAll lb m) h cursor = (0, atomixMixerStopAll lb m)
    \<and> atomixMixerSetState lb (atomixMixerStopAll lb m) h flag = (0, atomixMixerStopAll lb m)"
proof -
  have fl: "\<not> 1 < lay_flag (mix_lays (atomixMixerStopAll lb m) (unat (h AND ATMX_LMASK lb)))"
    using stop_all_flag [OF assms slot_less, of m h] by (auto simp add: ATOMIX_STOP_def)
  show ?thesis
    using fl stop_all_flag [OF assms]
    by (simp add: atomixMixerSetGainPan_def atomixMixerSetCursor_def atomixMixerSetState_def Let_def)
qed

theorem C7_stop_all_witness:
  "lay_flag (mix_lays (atomixMixerStopAll 2 (snd one_playing)) 0) = ATOMIX_STOP
   \<and> atomixMixerSetState 2 (atomixMixerStopAll 2 (snd one_playing)) (fst one_playing) ATOMIX_PLAY
       = (0, atomixMixerStopAll 2 (snd one_playing))"
proof -
  have c: "(2::nat) < 32" by simp
  have f: "lay_flag (mix_lays (atomixMixerStopAll 2 (snd one_playing)) 0) = ATOMIX_STOP"
    by (simp add: one_playing_def scen_simps)
  from C7_stop_all [OF c, of "snd one_playing" "fst one_playing" 0 0 0 ATOMIX_PLAY] f
  show ?thesis by simp
qed

text \<open>
  C3, as the code has it. A handle is valid when the addressed layer's \<open>id\<close> equals it
  and the layer's flag is above \<^verbatim>\<open>ATOMIX_STOP\<close>. For a valid handle
  \<^verbatim>\<open>atomixMixerSetState\<close> succeeds (returns 1) for every requested state in
  \<open>{STOP, HALT, PLAY, LOOP}\<close> and stores it as the layer's flag. A layer whose flag is
  0 or \<^verbatim>\<open>ATOMIX_STOP\<close> is refused (0 is returned and nothing is written), and no call
  makes a flag 0 or changes a flag that is 0.
\<close>

theorem C3_set_state:
  "(h = lay_id (mix_lays m (unat (h AND ATMX_LMASK lb)))
      \<and> 1 < lay_flag (mix_lays m (unat (h AND ATMX_LMASK lb)))
      \<and> \<not> (flag < 1 \<or> 4 < flag) \<longrightarrow>
      atomixMixerSetState lb m h flag =
        (1, m\<lparr>mix_lays := (mix_lays m)(unat (h AND ATMX_LMASK lb) :=
               (mix_lays m (unat (h AND ATMX_LMASK lb)))\<lparr>lay_flag := flag\<rparr>)\<rparr>))
   \<and> (lay_flag (mix_lays m (unat (h AND ATMX_LMASK lb))) \<le> 1 \<longrightarrow>
        atomixMixerSetState lb m h flag = (0, m))
   \<and> (lay_flag (mix_lays (snd (atomixMixerSetState lb m h flag)) k) = 0
        \<longleftrightarrow> lay_flag (mix_lays m k) = 0)"
proof -
  let ?slot = "unat (h AND ATMX_LMASK lb)"
  have a: "atomixMixerSetState lb m h flag =
        (1, m\<lparr>mix_lays := (mix_lays m)(?slot := (mix_lays m ?slot)\<lparr>lay_flag := flag\<rparr>)\<rparr>)"
    if "h = lay_id (mix_lays m ?slot)" "1 < lay_flag (mix_lays m ?slot)"
       "\<not> (flag < 1 \<or> 4 < flag)"
    using that by (auto simp add: atomixMixerSetState_def Let_def cswap_flag_def)
  have b: "atomixMixerSetState lb m h flag = (0, m)"
    if "lay_flag (mix_lays m ?slot) \<le> 1"
    using that by (auto simp add: atomixMixerSetState_def Let_def not_less)
  have c: "lay_flag (mix_lays (snd (atomixMixerSetState lb m h flag)) k) = 0
        \<longleftrightarrow> lay_flag (mix_lays m k) = 0"
    by (auto simp add: atomixMixerSetState_def Let_def cswap_flag_def)
  from a b c show ?thesis by blast
qed

theorem C3_set_state_witness:
  "fst one_playing = lay_id (mix_lays (snd one_playing) (unat (fst one_playing AND ATMX_LMASK 2)))
   \<and> lay_flag (mix_lays (snd one_playing) (unat (fst one_playing AND ATMX_LMASK 2))) = ATOMIX_PLAY
   \<and> fst (atomixMixerSetState 2 (snd one_playing) (fst one_playing) ATOMIX_HALT) = 1
   \<and> lay_flag (mix_lays (snd (atomixMixerSetState 2 (snd one_playing) (fst one_playing) ATOMIX_HALT))
        (unat (fst one_playing AND ATMX_LMASK 2))) = ATOMIX_HALT
   \<and> atomixMixerSetState 2 (atomixMixerNew F_1 0) 4 ATOMIX_PLAY = (0, atomixMixerNew F_1 0)"
proof -
  have a: "fst one_playing = lay_id (mix_lays (snd one_playing) (unat (fst one_playing AND ATMX_LMASK 2)))"
    and b: "lay_flag (mix_lays (snd one_playing) (unat (fst one_playing AND ATMX_LMASK 2))) = ATOMIX_PLAY"
    by (simp_all add: one_playing_def scen_simps)
  have c: "\<not> (ATOMIX_HALT < 1 \<or> 4 < ATOMIX_HALT)" "(1::u8) < ATOMIX_PLAY"
    by (simp_all add: ATOMIX_HALT_def ATOMIX_PLAY_def)
  have d: "lay_flag (mix_lays (atomixMixerNew F_1 0) (unat ((4::u32) AND ATMX_LMASK 2))) \<le> 1"
    by (simp add: atomixMixerNew_def zero_layer_def)
  from C3_set_state [of "fst one_playing" "snd one_playing" 2 ATOMIX_HALT 0]
    C3_set_state [of 4 "atomixMixerNew F_1 0" 2 ATOMIX_PLAY 0] a b c d
  show ?thesis by simp
qed

text \<open>
  The claim as it is written fails for a layer in \<^verbatim>\<open>ATOMIX_STOP\<close>: a sound is played and
  then stopped through its handle; the layer still holds the handle as its \<open>id\<close> and its
  flag is \<^verbatim>\<open>ATOMIX_STOP\<close>, not 0, and yet the transition back to \<^verbatim>\<open>ATOMIX_PLAY\<close> is
  refused.
\<close>

theorem C3_set_state_counterexample:
  "fst one_stopped = 1
   \<and> lay_id (mix_lays (snd one_stopped) (unat (fst one_playing AND ATMX_LMASK 2))) = fst one_playing
   \<and> lay_flag (mix_lays (snd one_stopped) (unat (fst one_playing AND ATMX_LMASK 2))) = ATOMIX_STOP
   \<and> ATOMIX_STOP \<noteq> 0
   \<and> atomixMixerSetState 2 (snd one_stopped) (fst one_playing) ATOMIX_PLAY = (0, snd one_stopped)"
  by (simp add: one_stopped_def one_playing_def scen_simps)

subsection \<open>Mixing\<close>

text \<open>
  C1, as the code has it. A successful \<^verbatim>\<open>atomixMixerPlayAdv\<close> sets \<open>fmax\<close> to the fade
  argument (0 when negative, else with its two low bits cleared; for \<^verbatim>\<open>atomixMixerPlay\<close>
  the fade argument is the default fade of the mixer) and the fade counter to
  0 when the requested state is \<^verbatim>\<open>ATOMIX_STOP\<close> or \<^verbatim>\<open>ATOMIX_HALT\<close> and to \<open>fmax\<close> when it
  is \<^verbatim>\<open>ATOMIX_PLAY\<close> or \<^verbatim>\<open>ATOMIX_LOOP\<close>: a layer that starts playing starts fully faded
  in. So the layer started in \<^verbatim>\<open>ATOMIX_PLAY\<close> with \<open>fmax = 4\<close>, gain 1, pan 0 and volume 1
  on the constant mono sound has fade counter 4, and the first four frames mixed without
  SSE are \<open>(1/2, 1/2)\<close> each: the gain 1 at pan 0 is 1/2 on either side, and there is no
  ramp.
\<close>

theorem C1_fade_init:
  "(lb < 32 \<and> fst (atomixMixerPlayAdv lb m sd flag gain pan start end' fade) \<noteq> 0 \<longrightarrow>
      lay_fmax (mix_lays (snd (atomixMixerPlayAdv lb m sd flag gain pan start end' fade))
        (unat (fst (atomixMixerPlayAdv lb m sd flag gain pan start end' fade) AND ATMX_LMASK lb)))
        = (if fade <s 0 then 0 else fade AND NOT 3)
    \<and> lay_fade (mix_lays (snd (atomixMixerPlayAdv lb m sd flag gain pan start end' fade))
        (unat (fst (atomixMixerPlayAdv lb m sd flag gain pan start end' fade) AND ATMX_LMASK lb)))
        = (if flag = ATOMIX_STOP \<or> flag = ATOMIX_HALT then 0
           else if fade <s 0 then 0 else fade AND NOT 3)
    \<and> (flag = ATOMIX_STOP \<or> flag = ATOMIX_HALT \<or> flag = ATOMIX_PLAY \<or> flag = ATOMIX_LOOP))
   \<and> (lb < 32 \<and> fst (atomixMixerPlay lb m sd flag gain pan) \<noteq> 0 \<longrightarrow>
      lay_fmax (mix_lays (snd (atomixMixerPlay lb m sd flag gain pan))
        (unat (fst (atomixMixerPlay lb m sd flag gain pan) AND ATMX_LMASK lb)))
        = (if mix_fade m <s 0 then 0 else mix_fade m AND NOT 3)
    \<and> lay_fade (mix_lays (snd (atomixMixerPlay lb m sd flag gain pan))
        (unat (fst (atomixMixerPlay lb m sd flag gain pan) AND ATMX_LMASK lb)))
        = (if flag = ATOMIX_STOP \<or> flag = ATOMIX_HALT then 0
           else if mix_fade m <s 0 then 0 else mix_fade m AND NOT 3)
    \<and> (flag = ATOMIX_STOP \<or> flag = ATOMIX_HALT \<or> flag = ATOMIX_PLAY \<or> flag = ATOMIX_LOOP))
   \<and> lay_fade (mix_lays (snd one_playing) 0) = 4
   \<and> lay_fmax (mix_lays (snd one_playing) 0) = 4
   \<and> take 8 (fst (snd (atomixMixerMix_nosse 2 True (snd one_playing)
         [F_9, F_9, F_9, F_9, F_9, F_9, F_9, F_9, F_9, F_9] 4))) = [F_half, F_half, F_half, F_half, F_half, F_half, F_half, F_half]"
proof -
  have g: "lay_fmax (mix_lays m' (unat (h AND ATMX_LMASK lb))) = (if f <s 0 then 0 else f AND NOT 3)
    \<and> lay_fade (mix_lays m' (unat (h AND ATMX_LMASK lb)))
        = (if flag = ATOMIX_STOP \<or> flag = ATOMIX_HALT then 0
           else if f <s 0 then 0 else f AND NOT 3)
    \<and> (flag = ATOMIX_STOP \<or> flag = ATOMIX_HALT \<or> flag = ATOMIX_PLAY \<or> flag = ATOMIX_LOOP)"
    if lb: "lb < 32" and p: "atomixMixerPlayAdv lb m sd flag gain pan s e f = (h, m')"
      and h: "h \<noteq> 0" for h m' s e f
  proof -
    have v: "\<not> (flag < 1 \<or> 4 < flag)"
      using p h by (auto simp add: atomixMixerPlayAdv_def split: if_splits)
    have "unat flag \<noteq> 0" "unat flag \<le> 4"
      using v by (simp_all add: word_less_nat_alt unat_eq_0 not_less word_le_nat_alt)
    then have "unat flag = 1 \<or> unat flag = 2 \<or> unat flag = 3 \<or> unat flag = 4" by arith
    then have fl: "flag = 1 \<or> flag = 2 \<or> flag = 3 \<or> flag = 4"
      by (simp add: word_unat_eq_iff)
    have pp: "play_probe lb (unat (ATMX_LAYERS lb)) m sd flag gain pan s e f = (h, m')"
      using p h by (auto simp add: atomixMixerPlayAdv_def split: if_splits)
    from play_probe_some [OF lb pp h] fl show ?thesis
      by (auto simp add: ATOMIX_STOP_def ATOMIX_HALT_def ATOMIX_PLAY_def ATOMIX_LOOP_def)
  qed
  have s1: "lay_fade (mix_lays (snd one_playing) 0) = 4" "lay_fmax (mix_lays (snd one_playing) 0) = 4"
    by (simp_all add: one_playing_state)
  have s2: "take 8 (fst (snd (atomixMixerMix_nosse 2 True (snd one_playing)
         [F_9, F_9, F_9, F_9, F_9, F_9, F_9, F_9, F_9, F_9] 4))) = [F_half, F_half, F_half, F_half, F_half, F_half, F_half, F_half]"
    by (simp add: one_playing_mix4)
  have ga: "lb < 32 \<and> fst (atomixMixerPlayAdv lb m sd flag gain pan s e f) \<noteq> 0 \<longrightarrow>
      lay_fmax (mix_lays (snd (atomixMixerPlayAdv lb m sd flag gain pan s e f))
        (unat (fst (atomixMixerPlayAdv lb m sd flag gain pan s e f) AND ATMX_LMASK lb)))
        = (if f <s 0 then 0 else f AND NOT 3)
    \<and> lay_fade (mix_lays (snd (atomixMixerPlayAdv lb m sd flag gain pan s e f))
        (unat (fst (atomixMixerPlayAdv lb m sd flag gain pan s e f) AND ATMX_LMASK lb)))
        = (if flag = ATOMIX_STOP \<or> flag = ATOMIX_HALT then 0
           else if f <s 0 then 0 else f AND NOT 3)
    \<and> (flag = ATOMIX_STOP \<or> flag = ATOMIX_HALT \<or> flag = ATOMIX_PLAY \<or> flag = ATOMIX_LOOP)"
    for s e f
    using g [where s = s and e = e and f = f
        and h = "fst (atomixMixerPlayAdv lb m sd flag gain pan s e f)"
        and m' = "snd (atomixMixerPlayAdv lb m sd flag gain pan s e f)"]
    by simp
  show ?thesis
    using ga [where s = start and e = end' and f = fade]
      ga [where s = 0 and e = "snd_len sd" and f = "mix_fade m"] s1 s2
    unfolding atomixMixerPlay_def by simp
qed

text \<open>
  The theorem at the same sound started in \<^verbatim>\<open>ATOMIX_HALT\<close>: its fade counter starts at
  0, and the ramp is heard when the layer is resumed, as \<open>fade / fmax\<close> times 1/2.
\<close>

theorem C1_fade_init_witness:
  "fst one_halted = 4 \<and> unat (fst one_halted AND ATMX_LMASK 2) = 0
   \<and> lay_fmax (mix_lays (snd one_halted) 0) = 4
   \<and> lay_fade (mix_lays (snd one_halted) 0) = 0
   \<and> fst (atomixMixerPlay 2 (atomixMixerNew F_1 8) const_mono ATOMIX_LOOP F_1 0) = 4
   \<and> lay_fmax (mix_lays (snd (atomixMixerPlay 2 (atomixMixerNew F_1 8) const_mono ATOMIX_LOOP F_1 0)) 0) = 8
   \<and> lay_fade (mix_lays (snd (atomixMixerPlay 2 (atomixMixerNew F_1 8) const_mono ATOMIX_LOOP F_1 0)) 0) = 8
   \<and> take 8 (fst (snd (atomixMixerMix_nosse 2 True
         (snd (atomixMixerSetState 2 (snd one_halted) (fst one_halted) ATOMIX_PLAY))
         [F_9, F_9, F_9, F_9, F_9, F_9, F_9, F_9, F_9, F_9] 4))) = [0, 0, F_eighth, F_eighth, F_quarter, F_quarter, F_3eighths, F_3eighths]"
proof -
  have a: "fst one_halted = 4" "unat ((4::u32) AND ATMX_LMASK 2) = 0"
    by (simp_all add: one_halted_def scen_simps)
  have b: "\<not> (4::i32) <s 0" "(4::i32) AND NOT 3 = 4" "(2::nat) < 32" "(4::u32) \<noteq> 0"
    by (simp_all add: word_sless_alt)
  have c: "take 8 (fst (snd (atomixMixerMix_nosse 2 True
         (snd (atomixMixerSetState 2 (snd one_halted) (fst one_halted) ATOMIX_PLAY))
         [F_9, F_9, F_9, F_9, F_9, F_9, F_9, F_9, F_9, F_9] 4))) = [0, 0, F_eighth, F_eighth, F_quarter, F_quarter, F_3eighths, F_3eighths]"
    by (simp add: one_halted_mix4)
  have d: "fst (atomixMixerPlay 2 (atomixMixerNew F_1 8) const_mono ATOMIX_LOOP F_1 0) = 4"
    "mix_fade (atomixMixerNew F_1 8) = 8" "\<not> (8::i32) <s 0" "(8::i32) AND NOT 3 = 8"
    "ATOMIX_LOOP \<noteq> ATOMIX_STOP" "ATOMIX_LOOP \<noteq> ATOMIX_HALT"
    by (simp_all add: scen_simps)
  from C1_fade_init [of 2 "atomixMixerNew F_1 0" const_mono ATOMIX_HALT F_1 0 0 8 4]
    C1_fade_init [of 2 "atomixMixerNew F_1 8" const_mono ATOMIX_LOOP F_1 0 0 8 4] a b c d
  show ?thesis by (simp add: one_halted_def)
qed

text \<open>
  The claim as it is written fails at the layer started in \<^verbatim>\<open>ATOMIX_PLAY\<close> with fade
  length 4: its fade counter is 4, not 0, and the four frames are not the ramp
  \<open>0, 1/4, 1/2, 3/4\<close>.
\<close>

theorem C1_fade_init_counterexample:
  "fst one_playing \<noteq> 0
   \<and> lay_flag (mix_lays (snd one_playing) 0) = ATOMIX_PLAY
   \<and> lay_fmax (mix_lays (snd one_playing) 0) = 4
   \<and> lay_fade (mix_lays (snd one_playing) 0) \<noteq> 0
   \<and> take 8 (fst (snd (atomixMixerMix_nosse 2 True (snd one_playing)
         [F_9, F_9, F_9, F_9, F_9, F_9, F_9, F_9, F_9, F_9] 4))) \<noteq> [0, 0, F_quarter, F_quarter, F_half, F_half, F_3quarters, F_3quarters]"
proof -
  have a: "fst one_playing = 4"
    by (simp add: one_playing_def scen_simps)
  have b: "lay_flag (mix_lays (snd one_playing) 0) = ATOMIX_PLAY"
    "lay_fmax (mix_lays (snd one_playing) 0) = 4" "lay_fade (mix_lays (snd one_playing) 0) = 4"
    by (simp_all add: one_playing_state ATOMIX_PLAY_def)
  have c: "take 8 (fst (snd (atomixMixerMix_nosse 2 True (snd one_playing)
         [F_9, F_9, F_9, F_9, F_9, F_9, F_9, F_9, F_9, F_9] 4))) = [F_half, F_half, F_half, F_half, F_half, F_half, F_half, F_half]"
    by (simp add: one_playing_mix4)
  show ?thesis by (simp add: a b c)
qed

text \<open>
  C2. With SSE, one layer plays the constant sound at 1/2 a side, and the stack has room
  for the 32 bytes of the accumulator. A call for two frames delivers
  \<open>(1/2, 1/2), (1/2, 1/2)\<close>. A call for one frame delivers \<open>(1/2, 1/2)\<close>, has three more
  frames in the accumulator and sets \<open>rem = 3\<close>, but its
  \<^verbatim>\<open>memcpy(mix->data, (float*)align + rnum*2, mix->rem)\<close> copies three bytes, not three
  frames: of the six floats of \<open>data\<close> only the three low bytes of the first are written,
  which are 0 in the float 1/2 as they were in \<open>data\<close>. The next call for one frame
  delivers the first two floats of \<open>data\<close>: \<open>(0, 0)\<close>, the zeros that the allocator left
  there, not \<open>(1/2, 1/2)\<close>.
\<close>

theorem C2_carry_lost:
  assumes "32 \<le> stack"
  shows "\<exists>m1 m2 m3.
      atomixMixerMix_sse 2 True stack (snd one_playing) [F_9, F_9, F_9, F_9] 2
          = Some (m3, [F_half, F_half, F_half, F_half], 2)
    \<and> atomixMixerMix_sse 2 True stack (snd one_playing) [F_9, F_9] 1
          = Some (m1, [F_half, F_half], 1)
    \<and> mix_rem m1 = 3
    \<and> mix_data m1 = [0, 0, 0, 0, 0, 0]
    \<and> atomixMixerMix_sse 2 True stack m1 [F_9, F_9] 1 = Some (m2, [0, 0], 1)"
proof -
  have ns: "\<not> stack < 32" using assms by simp
  obtain m3 where o2: "atomixMixerMix_sse 2 True stack (snd one_playing) [F_9, F_9, F_9, F_9] 2
          = Some (m3, [F_half, F_half, F_half, F_half], 2)"
    using ns by (simp add: one_playing_state mix_simps scen_simps f_facts)
  obtain m1 where o1: "atomixMixerMix_sse 2 True stack (snd one_playing) [F_9, F_9] 1
          = Some (m1, [F_half, F_half], 1)"
    and r: "mix_rem m1 = 3" and d: "mix_data m1 = [0, 0, 0, 0, 0, 0]"
    using ns by (simp add: one_playing_state mix_simps scen_simps f_facts)
  obtain m2 where o3: "atomixMixerMix_sse 2 True stack m1 [F_9, F_9] 1 = Some (m2, [0, 0], 1)"
    using r d by (simp add: atomixMixerMix_sse_def [of 2 True stack m1] Let_def write_floats_def)
  from o1 o2 o3 r d show ?thesis by blast
qed

text \<open>The same with the 8 MiB of stack that a main thread has on Linux.\<close>

theorem C2_carry_lost_witness:
  "\<exists>m1 m2 m3.
      atomixMixerMix_sse 2 True 8388608 (snd one_playing) [F_9, F_9, F_9, F_9] 2
          = Some (m3, [F_half, F_half, F_half, F_half], 2)
    \<and> atomixMixerMix_sse 2 True 8388608 (snd one_playing) [F_9, F_9] 1
          = Some (m1, [F_half, F_half], 1)
    \<and> mix_rem m1 = 3
    \<and> mix_data m1 = [0, 0, 0, 0, 0, 0]
    \<and> atomixMixerMix_sse 2 True 8388608 m1 [F_9, F_9] 1 = Some (m2, [0, 0], 1)"
  using C2_carry_lost [of 8388608] by simp

text \<open>
  C4. One layer plays the sound of \<^verbatim>\<open>FLT_MAX\<close> at the gain 4: it adds \<open>+inf\<close> to every
  float of the buffer, and the clipping of either build makes it 1. A second layer plays
  the sound at the gain -4 and adds \<open>-inf\<close>, which leaves a NaN. Without SSE the clipping
  compares the NaN with -1 and with 1, finds it neither below nor above, and stores it
  back: the call writes NaN, not floats in \<open>[-1, 1]\<close>. With SSE, at the same mixer,
  \<^verbatim>\<open>_mm_max_ps\<close> returns its second operand -1 for the NaN, and the call writes \<open>-1\<close>.
\<close>

theorem C4_clip_nan:
  assumes "32 \<le> stack"
  shows "fst (snd (atomixMixerMix_nosse 2 True one_loud [F_9, F_9, F_9, F_9] 2))
          = [F_1, F_1, F_1, F_1]
    \<and> (\<exists>m. atomixMixerMix_sse 2 True stack one_loud [F_9, F_9, F_9, F_9] 2
          = Some (m, [F_1, F_1, F_1, F_1], 2))
    \<and> fst (snd (atomixMixerMix_nosse 2 True two_loud [F_9, F_9, F_9, F_9] 2))
          = [F_nan, F_nan, F_nan, F_nan]
    \<and> f_nan F_nan
    \<and> (\<exists>m. atomixMixerMix_sse 2 True stack two_loud [F_9, F_9, F_9, F_9] 2
          = Some (m, [F_neg1, F_neg1, F_neg1, F_neg1], 2))"
proof -
  have ns: "\<not> stack < 32" using assms by simp
  have a1: "fst (snd (atomixMixerMix_nosse 2 True one_loud [F_9, F_9, F_9, F_9] 2))
          = [F_1, F_1, F_1, F_1]"
    by (simp add: one_loud_state mix_simps scen_simps f_facts)
  have b1: "\<exists>m. atomixMixerMix_sse 2 True stack one_loud [F_9, F_9, F_9, F_9] 2
          = Some (m, [F_1, F_1, F_1, F_1], 2)"
    using ns by (simp add: one_loud_state mix_simps scen_simps f_facts)
  have a: "fst (snd (atomixMixerMix_nosse 2 True two_loud [F_9, F_9, F_9, F_9] 2))
          = [F_nan, F_nan, F_nan, F_nan]"
    by (simp add: two_loud_state mix_simps scen_simps f_facts)
  have b: "\<exists>m. atomixMixerMix_sse 2 True stack two_loud [F_9, F_9, F_9, F_9] 2
          = Some (m, [F_neg1, F_neg1, F_neg1, F_neg1], 2)"
    using ns by (simp add: two_loud_state mix_simps scen_simps f_facts)
  from a1 b1 a b show ?thesis by (simp add: f_facts)
qed

theorem C4_clip_nan_witness:
  "fst (snd (atomixMixerMix_nosse 2 True one_loud [F_9, F_9, F_9, F_9] 2))
          = [F_1, F_1, F_1, F_1]
    \<and> (\<exists>m. atomixMixerMix_sse 2 True 8388608 one_loud [F_9, F_9, F_9, F_9] 2
          = Some (m, [F_1, F_1, F_1, F_1], 2))
    \<and> fst (snd (atomixMixerMix_nosse 2 True two_loud [F_9, F_9, F_9, F_9] 2))
          = [F_nan, F_nan, F_nan, F_nan]
    \<and> f_nan F_nan
    \<and> (\<exists>m. atomixMixerMix_sse 2 True 8388608 two_loud [F_9, F_9, F_9, F_9] 2
          = Some (m, [F_neg1, F_neg1, F_neg1, F_neg1], 2))"
  using C4_clip_nan [of 8388608] by simp

text \<open>
  C5. \<^verbatim>\<open>fnum*2\<close> is a 32-bit product. At \<open>N = 2 ^ 31\<close> it wraps to 0, so without SSE
  \<^verbatim>\<open>memset\<close>, the kernels and the clipping loop run over no float at all: with a sound
  playing, the buffer is returned as it was passed, and \<open>2 ^ 31\<close> is returned as the
  number of frames written. The same call for 4 frames returns 4 and fills 8 floats.
\<close>

theorem C5_mix_overflow:
  "(\<forall>buff. fst (snd (atomixMixerMix_nosse 2 True (snd one_playing) buff 2147483648)) = buff
      \<and> snd (snd (atomixMixerMix_nosse 2 True (snd one_playing) buff 2147483648)) = 2147483648)
   \<and> fst (snd (atomixMixerMix_nosse 2 True (snd one_playing)
        [F_9, F_9, F_9, F_9, F_9, F_9, F_9, F_9, F_9, F_9] 4))
      = [F_half, F_half, F_half, F_half, F_half, F_half, F_half, F_half, F_9, F_9]
   \<and> snd (snd (atomixMixerMix_nosse 2 True (snd one_playing)
        [F_9, F_9, F_9, F_9, F_9, F_9, F_9, F_9, F_9, F_9] 4)) = 4"
proof -
  have t: "unat ((2147483648::u32) * 2) = 0" by simp
  have a: "fst (snd (atomixMixerMix_nosse 2 True (snd one_playing) buff 2147483648)) = buff
      \<and> snd (snd (atomixMixerMix_nosse 2 True (snd one_playing) buff 2147483648)) = 2147483648"
    for buff
    by (simp add: t one_playing_state mix_simps scen_simps split_beta)
  have b: "snd (snd (atomixMixerMix_nosse 2 True (snd one_playing)
        [F_9, F_9, F_9, F_9, F_9, F_9, F_9, F_9, F_9, F_9] 4)) = 4"
    by (simp add: atomixMixerMix_nosse_def Let_def split_beta)
  from a b one_playing_mix4 show ?thesis by simp
qed

end
